theory Spec2Isabelle
  imports Main "HOL-Library.Word"
begin

unbundle bit_operations_syntax

section \<open>Machine types and constants of the Linux x86-64 ABI\<close>

text \<open>
  The tracer is written for x86-64 Linux: \<open>long\<close> and \<open>unsigned long\<close> are 64-bit words,
  \<open>int\<close>, \<open>pid_t\<close> and \<open>mode_t\<close> are 32-bit words. Conversions between them are written
  out (\<open>ucast\<close> truncates or zero-extends, \<open>scast\<close> sign-extends).
\<close>

type_synonym long = "64 word"
type_synonym cint = "32 word"
type_synonym pid_t = "32 word"
type_synonym mode_t = "32 word"

text \<open>
  The flag values come from the system headers (\<open>fcntl.h\<close>, \<open>sys/stat.h\<close>), which are
  not part of the repository; they are the x86-64 Linux values.
\<close>

definition O_RDONLY :: cint where "O_RDONLY = 0"
definition O_WRONLY :: cint where "O_WRONLY = 1"
definition O_RDWR :: cint where "O_RDWR = 2"
definition O_ACCMODE :: cint where "O_ACCMODE = 3"
definition O_CREAT :: cint where "O_CREAT = 0x40"
definition O_TRUNC :: cint where "O_TRUNC = 0x200"
definition O_NOFOLLOW :: cint where "O_NOFOLLOW = 0x20000"

definition AT_FDCWD :: cint where "AT_FDCWD = - 100"
definition AT_SYMLINK_NOFOLLOW :: cint where "AT_SYMLINK_NOFOLLOW = 0x100"
definition AT_REMOVEDIR :: cint where "AT_REMOVEDIR = 0x200"
definition AT_SYMLINK_FOLLOW :: cint where "AT_SYMLINK_FOLLOW = 0x400"

definition S_IFMT :: mode_t where "S_IFMT = 0xF000"
definition S_IFDIR :: mode_t where "S_IFDIR = 0x4000"
definition S_IFREG :: mode_t where "S_IFREG = 0x8000"
definition S_IFLNK :: mode_t where "S_IFLNK = 0xA000"

definition S_ISDIR :: "mode_t \<Rightarrow> bool" where
  "S_ISDIR m = (m AND S_IFMT = S_IFDIR)"

text \<open>The value of a C comparison \<open>a == b\<close>, which is an \<open>int\<close>.\<close>

definition c_eq :: "cint \<Rightarrow> cint \<Rightarrow> cint" where
  "c_eq a b = (if a = b then 1 else 0)"

section \<open>Access events and the calls made on the sink\<close>

datatype es_event_type =
    ES_EVENT_TYPE_NOTIFY_OPEN
  | ES_EVENT_TYPE_NOTIFY_WRITE
  | ES_EVENT_TYPE_NOTIFY_CREATE
  | ES_EVENT_TYPE_NOTIFY_STAT
  | ES_EVENT_TYPE_NOTIFY_ACCESS
  | ES_EVENT_TYPE_NOTIFY_UNLINK
  | ES_EVENT_TYPE_NOTIFY_LINK
  | ES_EVENT_TYPE_NOTIFY_READLINK
  | ES_EVENT_TYPE_NOTIFY_SETTIME
  | ES_EVENT_TYPE_NOTIFY_SETMODE
  | ES_EVENT_TYPE_NOTIFY_FORK
  | ES_EVENT_TYPE_AUTH_SETOWNER

datatype es_action_type = ES_ACTION_TYPE_NOTIFY

text \<open>
  The arguments of the \<open>IOEvent\<close> constructor, in the order the handlers pass them.
  The error is kept as the signed value that is passed.
\<close>

record IOEvent =
  ev_pid :: pid_t
  ev_cpid :: pid_t
  ev_ppid :: pid_t
  ev_type :: es_event_type
  ev_action :: es_action_type
  ev_src :: string
  ev_dst :: string
  ev_exec :: string
  ev_mode :: mode_t
  ev_modified :: bool
  ev_error :: int

text \<open>
  The observer (\<open>m_bxl\<close>) is an external collaborator. What a handler produces is the
  sequence of calls it makes on the observer; one constructor per entry point and
  overload the handlers use:
  \<^item> \<open>report_access(syscall, event, checkCache)\<close>, where \<open>None\<close> stands for a call
    that leaves \<open>checkCache\<close> to its default;
  \<^item> \<open>report_access(syscall, type, path, mode, oflags, error, checkCache, pid)\<close>;
  \<^item> \<open>report_access(syscall, type, path, secondPath, mode, error, checkCache, pid)\<close>;
  \<^item> \<open>report_access_at(syscall, type, dirfd, path, oflags, getModeWithFd, pid, error)\<close>;
  \<^item> \<open>report_exec\<close>, \<open>report_exec_args\<close>, \<open>SendExitReport\<close>.
\<close>

datatype sink_call =
    report_access_event string IOEvent "bool option"
  | report_access_path string es_event_type string mode_t cint int bool pid_t
  | report_access_paths string es_event_type string string mode_t int bool pid_t
  | report_access_at string es_event_type cint string cint bool pid_t int
  | report_exec string string string int mode_t pid_t
  | report_exec_args pid_t string
  | SendExitReport pid_t

text \<open>
  The helpers of the observer that the handlers query. They are parameters of the model:
  their code is outside the tracer. \<open>basename\<close> is the C library's, kept with them.
\<close>

record BxlObserver =
  get_mode :: "string \<Rightarrow> mode_t"
  normalize_path :: "string \<Rightarrow> cint \<Rightarrow> pid_t \<Rightarrow> string"
  normalize_path_at :: "cint \<Rightarrow> string \<Rightarrow> cint \<Rightarrow> pid_t \<Rightarrow> string"
  fd_to_path :: "cint \<Rightarrow> pid_t \<Rightarrow> string"
  EnumerateDirectory :: "string \<Rightarrow> bool \<Rightarrow> bool \<times> string list"
  GetProgramPath :: string
  IsReportingProcessArgs :: bool
  basename :: "string \<Rightarrow> string"

text \<open>
  What the tracer reads from the stopped tracee: \<open>ReadArgumentLong i\<close> is the register of
  argument \<open>i\<close>, \<open>ReadArgumentString i\<close> the null-terminated string that argument \<open>i\<close>
  points to, \<open>ReadArgumentVector i\<close> the joined argument vector. \<open>ReturnValue\<close> is what
  \<open>ReadArgumentLong(0)\<close> gives once a handler has advanced the tracee to the end of the
  system call.
\<close>

record tracee_stop =
  ReadArgumentLong :: "nat \<Rightarrow> long"
  ReadArgumentString :: "nat \<Rightarrow> string"
  ReadArgumentVector :: "nat \<Rightarrow> string"
  ReturnValue :: long

text \<open>
  The tracer's own state: the pid whose stop is being handled, the tracee table, and the
  calls made on the observer so far, oldest first.
\<close>

record PTraceSandbox =
  m_traceePid :: pid_t
  m_traceeTable :: "(pid_t \<times> string) list"
  reported :: "sink_call list"

definition emit :: "sink_call \<Rightarrow> PTraceSandbox \<Rightarrow> PTraceSandbox" where
  "emit c s = s\<lparr>reported := reported s @ [c]\<rparr>"

section \<open>The open family\<close>

text \<open>
  \<open>ReportOpen\<close>. In C, \<open>==\<close> binds tighter than \<open>&\<close>, so
  \<open>oflag & O_ACCMODE == O_WRONLY\<close> is \<open>oflag & (O_ACCMODE == O_WRONLY)\<close>; and \<open>&\<close> binds
  tighter than \<open>&&\<close>.
\<close>

definition isCreate :: "mode_t \<Rightarrow> cint \<Rightarrow> bool" where
  "isCreate pathMode oflag =
     (\<not> (pathMode \<noteq> 0) \<and> oflag AND (O_CREAT OR O_TRUNC) \<noteq> 0)"

definition isWrite :: "mode_t \<Rightarrow> cint \<Rightarrow> bool" where
  "isWrite pathMode oflag =
     (pathMode \<noteq> 0 \<and>
      (oflag AND (O_CREAT OR O_TRUNC) \<noteq> 0 \<and>
       (oflag AND c_eq O_ACCMODE O_WRONLY \<noteq> 0 \<or> oflag AND c_eq O_ACCMODE O_RDWR \<noteq> 0)))"

definition open_event_type :: "mode_t \<Rightarrow> cint \<Rightarrow> es_event_type" where
  "open_event_type pathMode oflag =
     (if isCreate pathMode oflag then ES_EVENT_TYPE_NOTIFY_CREATE
      else if isWrite pathMode oflag then ES_EVENT_TYPE_NOTIFY_WRITE
      else ES_EVENT_TYPE_NOTIFY_OPEN)"

definition ReportOpen ::
  "BxlObserver \<Rightarrow> string \<Rightarrow> cint \<Rightarrow> string \<Rightarrow> PTraceSandbox \<Rightarrow> PTraceSandbox" where
  "ReportOpen bxl path oflag syscallName s =
     (let pathMode = get_mode bxl path in
      emit (report_access_event syscallName
             \<lparr>ev_pid = m_traceePid s, ev_cpid = 0, ev_ppid = 0,
              ev_type = open_event_type pathMode oflag,
              ev_action = ES_ACTION_TYPE_NOTIFY,
              ev_src = path, ev_dst = [], ev_exec = GetProgramPath bxl,
              ev_mode = pathMode, ev_modified = False, ev_error = 0\<rparr> None) s)"

definition Handlecreat :: "BxlObserver \<Rightarrow> tracee_stop \<Rightarrow> PTraceSandbox \<Rightarrow> PTraceSandbox" where
  "Handlecreat bxl t s =
     (let path = normalize_path bxl (ReadArgumentString t 1) 0 (m_traceePid s);
          oflag = O_CREAT OR O_WRONLY OR O_TRUNC
      in ReportOpen bxl path oflag ''creat'' s)"

definition Handleopen :: "BxlObserver \<Rightarrow> tracee_stop \<Rightarrow> PTraceSandbox \<Rightarrow> PTraceSandbox" where
  "Handleopen bxl t s =
     (let path = normalize_path bxl (ReadArgumentString t 1) 0 (m_traceePid s);
          oflag = ReadArgumentLong t 2
      in ReportOpen bxl path (ucast oflag) ''open'' s)"

definition Handleopenat :: "BxlObserver \<Rightarrow> tracee_stop \<Rightarrow> PTraceSandbox \<Rightarrow> PTraceSandbox" where
  "Handleopenat bxl t s =
     (let dirfd = ReadArgumentLong t 1;
          pathName = ReadArgumentString t 2;
          path = normalize_path_at bxl (ucast dirfd) pathName 0 (m_traceePid s);
          flags = ReadArgumentLong t 3
      in ReportOpen bxl path (ucast flags) ''openat'' s)"

definition Handlename_to_handle_at ::
  "BxlObserver \<Rightarrow> tracee_stop \<Rightarrow> PTraceSandbox \<Rightarrow> PTraceSandbox" where
  "Handlename_to_handle_at bxl t s =
     (let dirfd = ReadArgumentLong t 1;
          pathname = ReadArgumentString t 2;
          flags = ReadArgumentLong t 5;
          oflags = (if flags AND scast AT_SYMLINK_FOLLOW \<noteq> 0 then 0 else O_NOFOLLOW);
          pathStr = normalize_path_at bxl (ucast dirfd) pathname oflags (m_traceePid s)
      in ReportOpen bxl pathStr oflags ''name_to_handle_at'' s)"

section \<open>The error value of mkdir, mkdirat and rmdir\<close>

text \<open>
  \<open>GetErrno\<close> reads the return register as a \<open>long\<close>. The conditional expression has type
  \<open>unsigned long\<close> (\<open>0xffffffffffffffffUL - returnValue\<close> wraps around in 64 bits) and is
  converted to the \<open>int\<close> the function returns, which keeps the low 32 bits.
\<close>

definition GetErrno :: "tracee_stop \<Rightarrow> cint" where
  "GetErrno t =
     (let returnValue = ReturnValue t in
      ucast (if returnValue = 0 then 0 else 0xffffffffffffffff - returnValue))"

definition ReportCreate ::
  "BxlObserver \<Rightarrow> string \<Rightarrow> cint \<Rightarrow> string \<Rightarrow> mode_t \<Rightarrow> long \<Rightarrow> bool \<Rightarrow>
   PTraceSandbox \<Rightarrow> PTraceSandbox" where
  "ReportCreate bxl syscallName dirfd pathname mode returnValue checkCache s =
     emit (report_access_event syscallName
            \<lparr>ev_pid = m_traceePid s, ev_cpid = 0, ev_ppid = 0,
             ev_type = ES_EVENT_TYPE_NOTIFY_CREATE,
             ev_action = ES_ACTION_TYPE_NOTIFY,
             ev_src = normalize_path_at bxl dirfd pathname 0 (m_traceePid s),
             ev_dst = [], ev_exec = GetProgramPath bxl,
             ev_mode = mode, ev_modified = False, ev_error = sint returnValue\<rparr>
            (Some checkCache)) s"

text \<open>
  The three handlers advance the tracee to the end of the system call
  (\<open>PTRACE_SYSCALL\<close>, \<open>waitpid\<close>) before they call \<open>GetErrno\<close>; the \<open>int\<close> it returns is
  sign-extended where \<open>ReportCreate\<close> takes a \<open>long\<close>.
\<close>

definition Handlemkdir :: "BxlObserver \<Rightarrow> tracee_stop \<Rightarrow> PTraceSandbox \<Rightarrow> PTraceSandbox" where
  "Handlemkdir bxl t s =
     (let path = ReadArgumentString t 1
      in ReportCreate bxl ''mkdir'' AT_FDCWD path S_IFDIR (scast (GetErrno t)) False s)"

definition Handlemkdirat :: "BxlObserver \<Rightarrow> tracee_stop \<Rightarrow> PTraceSandbox \<Rightarrow> PTraceSandbox" where
  "Handlemkdirat bxl t s =
     (let dirfd = ReadArgumentLong t 1;
          path = ReadArgumentString t 2
      in ReportCreate bxl ''mkdirat'' (ucast dirfd) path S_IFDIR (scast (GetErrno t)) False s)"

definition Handlermdir :: "BxlObserver \<Rightarrow> tracee_stop \<Rightarrow> PTraceSandbox \<Rightarrow> PTraceSandbox" where
  "Handlermdir bxl t s =
     (let path = ReadArgumentString t 1
      in emit (report_access_paths ''rmdir'' ES_EVENT_TYPE_NOTIFY_UNLINK path [] S_IFDIR
                (sint (GetErrno t)) False (m_traceePid s)) s)"

definition Handlemknod :: "BxlObserver \<Rightarrow> tracee_stop \<Rightarrow> PTraceSandbox \<Rightarrow> PTraceSandbox" where
  "Handlemknod bxl t s =
     (let path = ReadArgumentString t 1
      in ReportCreate bxl ''mknod'' AT_FDCWD path S_IFREG 0 True s)"

definition Handlemknodat :: "BxlObserver \<Rightarrow> tracee_stop \<Rightarrow> PTraceSandbox \<Rightarrow> PTraceSandbox" where
  "Handlemknodat bxl t s =
     (let dirfd = ReadArgumentLong t 1;
          path = ReadArgumentString t 2
      in ReportCreate bxl ''mknodat'' (ucast dirfd) path S_IFREG 0 True s)"

section \<open>Handlers keyed by a file descriptor\<close>

text \<open>
  \<open>path[0]\<close> of a \<open>std::string\<close>: the first character, and the terminating NUL when the
  string is empty. \<open>m_emptyStr\<close>, which the tracer's files use and do not declare, is taken
  to be the empty string.
\<close>

definition first_char :: "string \<Rightarrow> char" where
  "first_char path = (case path of [] \<Rightarrow> CHR 0x00 | c # _ \<Rightarrow> c)"

definition HandleReportAccessFd ::
  "BxlObserver \<Rightarrow> string \<Rightarrow> cint \<Rightarrow> es_event_type \<Rightarrow> PTraceSandbox \<Rightarrow> PTraceSandbox" where
  "HandleReportAccessFd bxl syscall fd event s =
     (let path = fd_to_path bxl fd (m_traceePid s)
      in if first_char path = CHR ''/''
         then emit (report_access_paths syscall event path [] 0 0 True (m_traceePid s)) s
         else s)"

definition Handlefstat :: "BxlObserver \<Rightarrow> tracee_stop \<Rightarrow> PTraceSandbox \<Rightarrow> PTraceSandbox" where
  "Handlefstat bxl t s =
     (let fd = ReadArgumentLong t 1
      in HandleReportAccessFd bxl ''fstat'' (ucast fd) ES_EVENT_TYPE_NOTIFY_STAT s)"

definition Handlewrite :: "BxlObserver \<Rightarrow> tracee_stop \<Rightarrow> PTraceSandbox \<Rightarrow> PTraceSandbox" where
  "Handlewrite bxl t s =
     (let fd = ReadArgumentLong t 1
      in HandleReportAccessFd bxl ''write'' (ucast fd) ES_EVENT_TYPE_NOTIFY_WRITE s)"

definition Handlewritev :: "BxlObserver \<Rightarrow> tracee_stop \<Rightarrow> PTraceSandbox \<Rightarrow> PTraceSandbox" where
  "Handlewritev bxl t s =
     (let fd = ReadArgumentLong t 1
      in HandleReportAccessFd bxl ''writev'' (ucast fd) ES_EVENT_TYPE_NOTIFY_WRITE s)"

definition Handlepwritev :: "BxlObserver \<Rightarrow> tracee_stop \<Rightarrow> PTraceSandbox \<Rightarrow> PTraceSandbox" where
  "Handlepwritev bxl t s =
     (let fd = ReadArgumentLong t 1
      in HandleReportAccessFd bxl ''pwritev'' (ucast fd) ES_EVENT_TYPE_NOTIFY_WRITE s)"

definition Handlepwritev2 :: "BxlObserver \<Rightarrow> tracee_stop \<Rightarrow> PTraceSandbox \<Rightarrow> PTraceSandbox" where
  "Handlepwritev2 bxl t s =
     (let fd = ReadArgumentLong t 1
      in HandleReportAccessFd bxl ''pwritev2'' (ucast fd) ES_EVENT_TYPE_NOTIFY_WRITE s)"

definition Handlepwrite64 :: "BxlObserver \<Rightarrow> tracee_stop \<Rightarrow> PTraceSandbox \<Rightarrow> PTraceSandbox" where
  "Handlepwrite64 bxl t s =
     (let fd = ReadArgumentLong t 1
      in HandleReportAccessFd bxl ''pwrite64'' (ucast fd) ES_EVENT_TYPE_NOTIFY_WRITE s)"

definition Handleftruncate :: "BxlObserver \<Rightarrow> tracee_stop \<Rightarrow> PTraceSandbox \<Rightarrow> PTraceSandbox" where
  "Handleftruncate bxl t s =
     (let fd = ReadArgumentLong t 1
      in HandleReportAccessFd bxl ''ftruncate'' (ucast fd) ES_EVENT_TYPE_NOTIFY_WRITE s)"

definition Handlefchmod :: "BxlObserver \<Rightarrow> tracee_stop \<Rightarrow> PTraceSandbox \<Rightarrow> PTraceSandbox" where
  "Handlefchmod bxl t s =
     (let fd = ReadArgumentLong t 1
      in HandleReportAccessFd bxl ''fchmod'' (ucast fd) ES_EVENT_TYPE_NOTIFY_SETMODE s)"

definition Handlefchown :: "BxlObserver \<Rightarrow> tracee_stop \<Rightarrow> PTraceSandbox \<Rightarrow> PTraceSandbox" where
  "Handlefchown bxl t s =
     (let fd = ReadArgumentLong t 1
      in HandleReportAccessFd bxl ''fchown'' (ucast fd) ES_EVENT_TYPE_AUTH_SETOWNER s)"

definition Handlesendfile :: "BxlObserver \<Rightarrow> tracee_stop \<Rightarrow> PTraceSandbox \<Rightarrow> PTraceSandbox" where
  "Handlesendfile bxl t s =
     (let out_fd = ReadArgumentLong t 1
      in HandleReportAccessFd bxl ''sendfile'' (ucast out_fd) ES_EVENT_TYPE_NOTIFY_WRITE s)"

definition Handlecopy_file_range ::
  "BxlObserver \<Rightarrow> tracee_stop \<Rightarrow> PTraceSandbox \<Rightarrow> PTraceSandbox" where
  "Handlecopy_file_range bxl t s =
     (let fd_out = ReadArgumentLong t 3
      in HandleReportAccessFd bxl ''copy_file_range'' (ucast fd_out)
           ES_EVENT_TYPE_NOTIFY_WRITE s)"

section \<open>Handlers keyed by a path\<close>

definition Handlestat :: "BxlObserver \<Rightarrow> tracee_stop \<Rightarrow> PTraceSandbox \<Rightarrow> PTraceSandbox" where
  "Handlestat bxl t s =
     (let pathname = ReadArgumentString t 1
      in emit (report_access_path ''stat'' ES_EVENT_TYPE_NOTIFY_STAT pathname 0 O_NOFOLLOW 0
                True (m_traceePid s)) s)"

definition Handlelstat :: "BxlObserver \<Rightarrow> tracee_stop \<Rightarrow> PTraceSandbox \<Rightarrow> PTraceSandbox" where
  "Handlelstat bxl t s =
     (let pathname = ReadArgumentString t 1
      in emit (report_access_path ''lstat'' ES_EVENT_TYPE_NOTIFY_STAT pathname 0 O_NOFOLLOW 0
                True (m_traceePid s)) s)"

text \<open>The handler of \<open>newfstatat\<close> reports under the name \<open>fstatat\<close>.\<close>

definition Handlenewfstatat :: "BxlObserver \<Rightarrow> tracee_stop \<Rightarrow> PTraceSandbox \<Rightarrow> PTraceSandbox" where
  "Handlenewfstatat bxl t s =
     (let dirfd = ReadArgumentLong t 1;
          pathname = ReadArgumentString t 2;
          flags = ReadArgumentLong t 4
      in emit (report_access_at ''fstatat'' ES_EVENT_TYPE_NOTIFY_STAT (ucast dirfd) pathname
                (ucast flags) False (m_traceePid s) 0) s)"

definition Handleaccess :: "BxlObserver \<Rightarrow> tracee_stop \<Rightarrow> PTraceSandbox \<Rightarrow> PTraceSandbox" where
  "Handleaccess bxl t s =
     (let pathname = ReadArgumentString t 1
      in emit (report_access_path ''access'' ES_EVENT_TYPE_NOTIFY_ACCESS pathname 0 0 0
                True (m_traceePid s)) s)"

definition Handlefaccessat :: "BxlObserver \<Rightarrow> tracee_stop \<Rightarrow> PTraceSandbox \<Rightarrow> PTraceSandbox" where
  "Handlefaccessat bxl t s =
     (let dirfd = ReadArgumentLong t 1;
          pathname = ReadArgumentString t 2
      in emit (report_access_at ''faccessat'' ES_EVENT_TYPE_NOTIFY_ACCESS (ucast dirfd) pathname
                0 False (m_traceePid s) 0) s)"

definition Handletruncate :: "BxlObserver \<Rightarrow> tracee_stop \<Rightarrow> PTraceSandbox \<Rightarrow> PTraceSandbox" where
  "Handletruncate bxl t s =
     (let path = ReadArgumentString t 1
      in emit (report_access_path ''truncate'' ES_EVENT_TYPE_NOTIFY_WRITE path 0 0 0
                True (m_traceePid s)) s)"

definition Handlelink :: "BxlObserver \<Rightarrow> tracee_stop \<Rightarrow> PTraceSandbox \<Rightarrow> PTraceSandbox" where
  "Handlelink bxl t s =
     (let oldpath = ReadArgumentString t 1;
          newpath = ReadArgumentString t 2
      in emit (report_access_paths ''link'' ES_EVENT_TYPE_NOTIFY_LINK
                (normalize_path bxl oldpath O_NOFOLLOW (m_traceePid s))
                (normalize_path bxl newpath O_NOFOLLOW (m_traceePid s))
                0 0 True (m_traceePid s)) s)"

definition Handlelinkat :: "BxlObserver \<Rightarrow> tracee_stop \<Rightarrow> PTraceSandbox \<Rightarrow> PTraceSandbox" where
  "Handlelinkat bxl t s =
     (let olddirfd = ReadArgumentLong t 1;
          oldpath = ReadArgumentString t 2;
          newdirfd = ReadArgumentLong t 3;
          newpath = ReadArgumentString t 4
      in emit (report_access_paths ''linkat'' ES_EVENT_TYPE_NOTIFY_LINK
                (normalize_path_at bxl (ucast olddirfd) oldpath O_NOFOLLOW (m_traceePid s))
                (normalize_path_at bxl (ucast newdirfd) newpath O_NOFOLLOW (m_traceePid s))
                0 0 True (m_traceePid s)) s)"

definition Handleunlink :: "BxlObserver \<Rightarrow> tracee_stop \<Rightarrow> PTraceSandbox \<Rightarrow> PTraceSandbox" where
  "Handleunlink bxl t s =
     (let path = ReadArgumentString t 1
      in if first_char path \<noteq> CHR 0x00
         then emit (report_access_path ''unlink'' ES_EVENT_TYPE_NOTIFY_UNLINK path 0 O_NOFOLLOW 0
                     True (m_traceePid s)) s
         else s)"

text \<open>
  In \<open>unlinkat\<close>, \<open>dirfd\<close> is the \<open>unsigned long\<close> read from the register; in
  \<open>dirfd != AT_FDCWD\<close> the \<open>int\<close> constant is converted to \<open>unsigned long\<close>, which
  sign-extends it.
\<close>

definition Handleunlinkat :: "BxlObserver \<Rightarrow> tracee_stop \<Rightarrow> PTraceSandbox \<Rightarrow> PTraceSandbox" where
  "Handleunlinkat bxl t s =
     (let dirfd = ReadArgumentLong t 1;
          path = ReadArgumentString t 2;
          flags = ReadArgumentLong t 3
      in if dirfd \<noteq> scast AT_FDCWD \<and> first_char path \<noteq> CHR 0x00
         then (let oflags = (if flags AND scast AT_REMOVEDIR \<noteq> 0 then 0 else O_NOFOLLOW)
               in emit (report_access_at ''unlinkat'' ES_EVENT_TYPE_NOTIFY_UNLINK (ucast dirfd)
                         path oflags False (m_traceePid s) 0) s)
         else s)"

definition Handlesymlink :: "BxlObserver \<Rightarrow> tracee_stop \<Rightarrow> PTraceSandbox \<Rightarrow> PTraceSandbox" where
  "Handlesymlink bxl t s =
     (let linkPath = ReadArgumentString t 2
      in emit (report_access_event ''symlink''
                \<lparr>ev_pid = m_traceePid s, ev_cpid = 0, ev_ppid = 0,
                 ev_type = ES_EVENT_TYPE_NOTIFY_CREATE,
                 ev_action = ES_ACTION_TYPE_NOTIFY,
                 ev_src = normalize_path bxl linkPath O_NOFOLLOW (m_traceePid s),
                 ev_dst = [], ev_exec = GetProgramPath bxl,
                 ev_mode = S_IFLNK, ev_modified = False, ev_error = 0\<rparr> None) s)"

definition Handlesymlinkat :: "BxlObserver \<Rightarrow> tracee_stop \<Rightarrow> PTraceSandbox \<Rightarrow> PTraceSandbox" where
  "Handlesymlinkat bxl t s =
     (let dirfd = ReadArgumentLong t 2;
          linkPath = ReadArgumentString t 3
      in emit (report_access_event ''symlinkat''
                \<lparr>ev_pid = m_traceePid s, ev_cpid = 0, ev_ppid = 0,
                 ev_type = ES_EVENT_TYPE_NOTIFY_CREATE,
                 ev_action = ES_ACTION_TYPE_NOTIFY,
                 ev_src = normalize_path_at bxl (ucast dirfd) linkPath O_NOFOLLOW (m_traceePid s),
                 ev_dst = [], ev_exec = GetProgramPath bxl,
                 ev_mode = S_IFLNK, ev_modified = False, ev_error = 0\<rparr> None) s)"

definition Handlereadlink :: "BxlObserver \<Rightarrow> tracee_stop \<Rightarrow> PTraceSandbox \<Rightarrow> PTraceSandbox" where
  "Handlereadlink bxl t s =
     (let path = ReadArgumentString t 1
      in emit (report_access_path ''readlink'' ES_EVENT_TYPE_NOTIFY_READLINK path 0 O_NOFOLLOW 0
                True (m_traceePid s)) s)"

definition Handlereadlinkat :: "BxlObserver \<Rightarrow> tracee_stop \<Rightarrow> PTraceSandbox \<Rightarrow> PTraceSandbox" where
  "Handlereadlinkat bxl t s =
     (let fd = ReadArgumentLong t 1;
          path = ReadArgumentString t 2
      in emit (report_access_at ''readlinkat'' ES_EVENT_TYPE_NOTIFY_READLINK (ucast fd) path
                O_NOFOLLOW False (m_traceePid s) 0) s)"

definition Handleutime :: "BxlObserver \<Rightarrow> tracee_stop \<Rightarrow> PTraceSandbox \<Rightarrow> PTraceSandbox" where
  "Handleutime bxl t s =
     (let filename = ReadArgumentString t 1
      in emit (report_access_paths ''utime'' ES_EVENT_TYPE_NOTIFY_SETTIME filename [] 0 0
                True (m_traceePid s)) s)"

definition Handleutimes :: "BxlObserver \<Rightarrow> tracee_stop \<Rightarrow> PTraceSandbox \<Rightarrow> PTraceSandbox" where
  "Handleutimes bxl t s = Handleutime bxl t s"

definition Handleutimensat :: "BxlObserver \<Rightarrow> tracee_stop \<Rightarrow> PTraceSandbox \<Rightarrow> PTraceSandbox" where
  "Handleutimensat bxl t s =
     (let dirfd = ReadArgumentLong t 1;
          pathname = ReadArgumentString t 2
      in emit (report_access_at ''utimensat'' ES_EVENT_TYPE_NOTIFY_SETTIME (ucast dirfd) pathname
                0 False (m_traceePid s) 0) s)"

definition Handlefutimesat :: "BxlObserver \<Rightarrow> tracee_stop \<Rightarrow> PTraceSandbox \<Rightarrow> PTraceSandbox" where
  "Handlefutimesat bxl t s =
     (let dirfd = ReadArgumentLong t 1;
          pathname = ReadArgumentString t 2
      in emit (report_access_at ''futimesat'' ES_EVENT_TYPE_NOTIFY_SETTIME (ucast dirfd) pathname
                0 False (m_traceePid s) 0) s)"

definition Handlechmod :: "BxlObserver \<Rightarrow> tracee_stop \<Rightarrow> PTraceSandbox \<Rightarrow> PTraceSandbox" where
  "Handlechmod bxl t s =
     (let path = ReadArgumentString t 1
      in emit (report_access_path ''chmod'' ES_EVENT_TYPE_NOTIFY_SETMODE path 0 0 0
                True (m_traceePid s)) s)"

definition Handlefchmodat :: "BxlObserver \<Rightarrow> tracee_stop \<Rightarrow> PTraceSandbox \<Rightarrow> PTraceSandbox" where
  "Handlefchmodat bxl t s =
     (let dirfd = ReadArgumentLong t 1;
          pathname = ReadArgumentString t 2;
          flags = ReadArgumentLong t 4;
          oflags = (if flags AND scast AT_SYMLINK_NOFOLLOW \<noteq> 0 then O_NOFOLLOW else 0)
      in emit (report_access_at ''fchmodat'' ES_EVENT_TYPE_NOTIFY_SETMODE (ucast dirfd) pathname
                oflags False (m_traceePid s) 0) s)"

definition Handlechown :: "BxlObserver \<Rightarrow> tracee_stop \<Rightarrow> PTraceSandbox \<Rightarrow> PTraceSandbox" where
  "Handlechown bxl t s =
     (let pathname = ReadArgumentString t 1
      in emit (report_access_paths ''chown'' ES_EVENT_TYPE_AUTH_SETOWNER pathname [] 0 0
                True (m_traceePid s)) s)"

definition Handlelchown :: "BxlObserver \<Rightarrow> tracee_stop \<Rightarrow> PTraceSandbox \<Rightarrow> PTraceSandbox" where
  "Handlelchown bxl t s =
     (let pathname = ReadArgumentString t 1
      in emit (report_access_path ''lchown'' ES_EVENT_TYPE_AUTH_SETOWNER pathname 0 O_NOFOLLOW 0
                True (m_traceePid s)) s)"

definition Handlefchownat :: "BxlObserver \<Rightarrow> tracee_stop \<Rightarrow> PTraceSandbox \<Rightarrow> PTraceSandbox" where
  "Handlefchownat bxl t s =
     (let dirfd = ReadArgumentLong t 1;
          pathname = ReadArgumentString t 2;
          flags = ReadArgumentLong t 5;
          oflags = (if flags AND scast AT_SYMLINK_NOFOLLOW \<noteq> 0 then O_NOFOLLOW else 0)
      in emit (report_access_at ''fchownat'' ES_EVENT_TYPE_AUTH_SETOWNER (ucast dirfd) pathname
                oflags False (m_traceePid s) 0) s)"

section \<open>The rename family\<close>

text \<open>
  \<open>std::string::replace(pos, len, str)\<close>: the characters from \<open>pos\<close>, at most \<open>len\<close> of
  them, are replaced by \<open>str\<close>. It throws only when \<open>pos\<close> is beyond the end, which
  cannot happen for the \<open>pos = 0\<close> the handler uses.
\<close>

definition string_replace :: "string \<Rightarrow> nat \<Rightarrow> nat \<Rightarrow> string \<Rightarrow> string" where
  "string_replace str pos len new = take pos str @ new @ drop (pos + len) str"

text \<open>The body of the loop over the enumerated entries, and the loop.\<close>

definition rename_entry ::
  "BxlObserver \<Rightarrow> string \<Rightarrow> string \<Rightarrow> string \<Rightarrow> string \<Rightarrow> PTraceSandbox \<Rightarrow> PTraceSandbox" where
  "rename_entry bxl syscall oldStr newStr fileOrDirectory s =
     (let mode = get_mode bxl fileOrDirectory;
          s1 = emit (report_access_path syscall ES_EVENT_TYPE_NOTIFY_UNLINK fileOrDirectory mode
                      O_NOFOLLOW 0 True (m_traceePid s)) s;
          renamed = string_replace fileOrDirectory 0 (length oldStr) newStr
      in ReportOpen bxl renamed O_CREAT syscall s1)"

fun rename_entries ::
  "BxlObserver \<Rightarrow> string \<Rightarrow> string \<Rightarrow> string \<Rightarrow> string list \<Rightarrow> PTraceSandbox \<Rightarrow>
   PTraceSandbox" where
  "rename_entries bxl syscall oldStr newStr [] s = s"
| "rename_entries bxl syscall oldStr newStr (fileOrDirectory # rest) s =
     rename_entries bxl syscall oldStr newStr rest
       (rename_entry bxl syscall oldStr newStr fileOrDirectory s)"

definition HandleRenameGeneric ::
  "BxlObserver \<Rightarrow> string \<Rightarrow> cint \<Rightarrow> string \<Rightarrow> cint \<Rightarrow> string \<Rightarrow> PTraceSandbox \<Rightarrow>
   PTraceSandbox" where
  "HandleRenameGeneric bxl syscall olddirfd oldpath newdirfd newpath s =
     (let oldStr = normalize_path_at bxl olddirfd oldpath O_NOFOLLOW (m_traceePid s);
          newStr = normalize_path_at bxl newdirfd newpath O_NOFOLLOW (m_traceePid s);
          mode = get_mode bxl oldStr
      in if S_ISDIR mode
         then (case EnumerateDirectory bxl oldStr True of
                 (enumerateResult, filesAndDirectories) \<Rightarrow>
                   if enumerateResult
                   then rename_entries bxl syscall oldStr newStr filesAndDirectories s
                   else s)
         else (let mode' = get_mode bxl oldStr;
                   s1 = emit (report_access_path syscall ES_EVENT_TYPE_NOTIFY_UNLINK oldStr mode'
                               O_NOFOLLOW 0 True (m_traceePid s)) s
               in ReportOpen bxl newStr O_CREAT syscall s1))"

definition Handlerename :: "BxlObserver \<Rightarrow> tracee_stop \<Rightarrow> PTraceSandbox \<Rightarrow> PTraceSandbox" where
  "Handlerename bxl t s =
     (let oldpath = ReadArgumentString t 1;
          newpath = ReadArgumentString t 2
      in HandleRenameGeneric bxl ''rename'' AT_FDCWD oldpath AT_FDCWD newpath s)"

definition Handlerenameat :: "BxlObserver \<Rightarrow> tracee_stop \<Rightarrow> PTraceSandbox \<Rightarrow> PTraceSandbox" where
  "Handlerenameat bxl t s =
     (let olddirfd = ReadArgumentLong t 1;
          oldpath = ReadArgumentString t 2;
          newdirfd = ReadArgumentLong t 3;
          newpath = ReadArgumentString t 4
      in HandleRenameGeneric bxl ''renameat'' (ucast olddirfd) oldpath (ucast newdirfd) newpath s)"

definition Handlerenameat2 :: "BxlObserver \<Rightarrow> tracee_stop \<Rightarrow> PTraceSandbox \<Rightarrow> PTraceSandbox" where
  "Handlerenameat2 bxl t s =
     (let olddirfd = ReadArgumentLong t 1;
          oldpath = ReadArgumentString t 2;
          newdirfd = ReadArgumentLong t 3;
          newpath = ReadArgumentString t 4
      in HandleRenameGeneric bxl ''renameat2'' (ucast olddirfd) oldpath (ucast newdirfd) newpath s)"

section \<open>The tracee table\<close>

text \<open>
  \<open>FindProcess\<close> is \<open>std::find_if\<close> over the table: the position of the first entry with
  the pid, \<open>None\<close> for the end iterator.
\<close>

fun FindProcess :: "pid_t \<Rightarrow> (pid_t \<times> string) list \<Rightarrow> nat option" where
  "FindProcess pid [] = None"
| "FindProcess pid (item # rest) =
     (if fst item = pid then Some 0 else map_option Suc (FindProcess pid rest))"

definition push_back :: "pid_t \<times> string \<Rightarrow> PTraceSandbox \<Rightarrow> PTraceSandbox" where
  "push_back item s = s\<lparr>m_traceeTable := m_traceeTable s @ [item]\<rparr>"

definition fork_event :: "pid_t \<Rightarrow> pid_t \<Rightarrow> string \<Rightarrow> IOEvent" where
  "fork_event pid childpid exePath =
     \<lparr>ev_pid = pid, ev_cpid = childpid, ev_ppid = 0,
      ev_type = ES_EVENT_TYPE_NOTIFY_FORK, ev_action = ES_ACTION_TYPE_NOTIFY,
      ev_src = exePath, ev_dst = [], ev_exec = exePath,
      ev_mode = 0, ev_modified = False, ev_error = 0\<rparr>"

definition UpdateTraceeTableForExec :: "string \<Rightarrow> PTraceSandbox \<Rightarrow> PTraceSandbox" where
  "UpdateTraceeTableForExec exePath s =
     (case FindProcess (m_traceePid s) (m_traceeTable s) of
        Some i \<Rightarrow>
          s\<lparr>m_traceeTable := (m_traceeTable s)[i := (fst (m_traceeTable s ! i), exePath)]\<rparr>
      | None \<Rightarrow>
          push_back (m_traceePid s, exePath)
            (emit (report_access_event ''vfork''
                    (fork_event (m_traceePid s) (m_traceePid s) exePath) (Some False)) s))"

definition Handleexecveat :: "BxlObserver \<Rightarrow> tracee_stop \<Rightarrow> PTraceSandbox \<Rightarrow> PTraceSandbox" where
  "Handleexecveat bxl t s =
     (let dirfd = ReadArgumentLong t 1;
          pathname = ReadArgumentString t 2;
          flags = ReadArgumentLong t 5;
          oflags = (if flags AND scast AT_SYMLINK_NOFOLLOW \<noteq> 0 then O_NOFOLLOW else 0);
          exePath = normalize_path_at bxl (ucast dirfd) pathname oflags (m_traceePid s);
          s1 = UpdateTraceeTableForExec exePath s;
          s2 = emit (report_exec ''execveat'' (basename bxl exePath) exePath 0 0 (m_traceePid s1))
                 s1
      in if IsReportingProcessArgs bxl
         then emit (report_exec_args (m_traceePid s2) (ReadArgumentVector t 3)) s2
         else s2)"

definition Handleexecve :: "BxlObserver \<Rightarrow> tracee_stop \<Rightarrow> PTraceSandbox \<Rightarrow> PTraceSandbox" where
  "Handleexecve bxl t s =
     (let file = ReadArgumentString t 1;
          s1 = UpdateTraceeTableForExec file s;
          s2 = emit (report_exec ''execve'' (basename bxl file) file 0 0 (m_traceePid s1)) s1
      in if IsReportingProcessArgs bxl
         then emit (report_exec_args (m_traceePid s2) (ReadArgumentVector t 2)) s2
         else s2)"

text \<open>
  \<open>HandleChildProcess\<close> advances the tracee to the end of the system call (twice when the
  first stop is the fork or clone event), reads the return register into \<open>childpid\<close>,
  reports the fork and appends the child. The \<open>long\<close> is narrowed to \<open>pid_t\<close> in the event
  and in the table entry.
\<close>

definition HandleChildProcess ::
  "BxlObserver \<Rightarrow> string \<Rightarrow> tracee_stop \<Rightarrow> PTraceSandbox \<Rightarrow> PTraceSandbox" where
  "HandleChildProcess bxl syscall t s =
     (let childpid = ReturnValue t;
          exePath = (case FindProcess (m_traceePid s) (m_traceeTable s) of
                       Some i \<Rightarrow> snd (m_traceeTable s ! i)
                     | None \<Rightarrow> GetProgramPath bxl);
          s1 = emit (report_access_event syscall
                      (fork_event (m_traceePid s) (ucast childpid) exePath) (Some False)) s
      in push_back (ucast childpid, exePath) s1)"

definition Handlefork :: "BxlObserver \<Rightarrow> tracee_stop \<Rightarrow> PTraceSandbox \<Rightarrow> PTraceSandbox" where
  "Handlefork bxl t s = HandleChildProcess bxl ''fork'' t s"

definition Handleclone :: "BxlObserver \<Rightarrow> tracee_stop \<Rightarrow> PTraceSandbox \<Rightarrow> PTraceSandbox" where
  "Handleclone bxl t s = HandleChildProcess bxl ''clone'' t s"

definition Handleexit :: "PTraceSandbox \<Rightarrow> PTraceSandbox" where
  "Handleexit s = emit (SendExitReport (m_traceePid s)) s"

definition RemoveFromTraceeTable :: "PTraceSandbox \<Rightarrow> PTraceSandbox" where
  "RemoveFromTraceeTable s =
     Handleexit (s\<lparr>m_traceeTable := filter (\<lambda>item. \<not> (fst item = m_traceePid s))
                                        (m_traceeTable s)\<rparr>)"

text \<open>
  A new \<open>PTraceSandbox\<close> object has an empty table. \<open>AttachToProcess\<close>, up to its event
  loop:
  when \<open>PTRACE_SEIZE\<close> or \<open>PTRACE_INTERRUPT\<close> fails the tracer exits (\<open>None\<close>), otherwise
  the seized pid becomes the current one and the first table entry.
\<close>

definition new_PTraceSandbox :: PTraceSandbox where
  "new_PTraceSandbox = \<lparr>m_traceePid = 0, m_traceeTable = [], reported = []\<rparr>"

definition AttachToProcess ::
  "bool \<Rightarrow> bool \<Rightarrow> pid_t \<Rightarrow> string \<Rightarrow> PTraceSandbox \<Rightarrow> PTraceSandbox option" where
  "AttachToProcess seize_ok interrupt_ok traceePid exe s =
     (if \<not> seize_ok then None
      else if \<not> interrupt_ok then None
      else Some (push_back (traceePid, exe) (s\<lparr>m_traceePid := traceePid\<rparr>)))"

section \<open>The seccomp filter and the dispatcher\<close>

text \<open>
  The names that \<open>TRACE_SYSCALL\<close> and \<open>CHECK_AND_CALL_HANDLER\<close> are applied to.
  \<open>SYSCALL_NAME_TO_NUMBER(name)\<close> is \<open>__NR_name\<close>; the numbers come from the kernel's
  \<open>syscall_64.tbl\<close>, which the source refers to and which is not part of the repository.
\<close>

datatype syscall_name =
    NR_execveat | NR_execve | NR_stat | NR_lstat | NR_fstat | NR_newfstatat | NR_access |
    NR_faccessat | NR_creat | NR_open | NR_openat | NR_write | NR_writev | NR_pwritev |
    NR_pwritev2 | NR_pwrite64 | NR_truncate | NR_ftruncate | NR_rmdir | NR_rename |
    NR_renameat | NR_renameat2 | NR_link | NR_linkat | NR_unlink | NR_unlinkat |
    NR_symlink | NR_symlinkat | NR_readlink | NR_readlinkat | NR_utime | NR_utimes |
    NR_utimensat | NR_futimesat | NR_mkdir | NR_mkdirat | NR_mknod | NR_mknodat |
    NR_chmod | NR_fchmod | NR_fchmodat | NR_chown | NR_fchown | NR_lchown | NR_fchownat |
    NR_sendfile | NR_copy_file_range | NR_name_to_handle_at | NR_fork | NR_clone

fun SYSCALL_NAME_TO_NUMBER :: "syscall_name \<Rightarrow> cint" where
  "SYSCALL_NAME_TO_NUMBER NR_execveat = 322"
| "SYSCALL_NAME_TO_NUMBER NR_execve = 59"
| "SYSCALL_NAME_TO_NUMBER NR_stat = 4"
| "SYSCALL_NAME_TO_NUMBER NR_lstat = 6"
| "SYSCALL_NAME_TO_NUMBER NR_fstat = 5"
| "SYSCALL_NAME_TO_NUMBER NR_newfstatat = 262"
| "SYSCALL_NAME_TO_NUMBER NR_access = 21"
| "SYSCALL_NAME_TO_NUMBER NR_faccessat = 269"
| "SYSCALL_NAME_TO_NUMBER NR_creat = 85"
| "SYSCALL_NAME_TO_NUMBER NR_open = 2"
| "SYSCALL_NAME_TO_NUMBER NR_openat = 257"
| "SYSCALL_NAME_TO_NUMBER NR_write = 1"
| "SYSCALL_NAME_TO_NUMBER NR_writev = 20"
| "SYSCALL_NAME_TO_NUMBER NR_pwritev = 296"
| "SYSCALL_NAME_TO_NUMBER NR_pwritev2 = 328"
| "SYSCALL_NAME_TO_NUMBER NR_pwrite64 = 18"
| "SYSCALL_NAME_TO_NUMBER NR_truncate = 76"
| "SYSCALL_NAME_TO_NUMBER NR_ftruncate = 77"
| "SYSCALL_NAME_TO_NUMBER NR_rmdir = 84"
| "SYSCALL_NAME_TO_NUMBER NR_rename = 82"
| "SYSCALL_NAME_TO_NUMBER NR_renameat = 264"
| "SYSCALL_NAME_TO_NUMBER NR_renameat2 = 316"
| "SYSCALL_NAME_TO_NUMBER NR_link = 86"
| "SYSCALL_NAME_TO_NUMBER NR_linkat = 265"
| "SYSCALL_NAME_TO_NUMBER NR_unlink = 87"
| "SYSCALL_NAME_TO_NUMBER NR_unlinkat = 263"
| "SYSCALL_NAME_TO_NUMBER NR_symlink = 88"
| "SYSCALL_NAME_TO_NUMBER NR_symlinkat = 266"
| "SYSCALL_NAME_TO_NUMBER NR_readlink = 89"
| "SYSCALL_NAME_TO_NUMBER NR_readlinkat = 267"
| "SYSCALL_NAME_TO_NUMBER NR_utime = 132"
| "SYSCALL_NAME_TO_NUMBER NR_utimes = 235"
| "SYSCALL_NAME_TO_NUMBER NR_utimensat = 280"
| "SYSCALL_NAME_TO_NUMBER NR_futimesat = 261"
| "SYSCALL_NAME_TO_NUMBER NR_mkdir = 83"
| "SYSCALL_NAME_TO_NUMBER NR_mkdirat = 258"
| "SYSCALL_NAME_TO_NUMBER NR_mknod = 133"
| "SYSCALL_NAME_TO_NUMBER NR_mknodat = 259"
| "SYSCALL_NAME_TO_NUMBER NR_chmod = 90"
| "SYSCALL_NAME_TO_NUMBER NR_fchmod = 91"
| "SYSCALL_NAME_TO_NUMBER NR_fchmodat = 268"
| "SYSCALL_NAME_TO_NUMBER NR_chown = 92"
| "SYSCALL_NAME_TO_NUMBER NR_fchown = 93"
| "SYSCALL_NAME_TO_NUMBER NR_lchown = 94"
| "SYSCALL_NAME_TO_NUMBER NR_fchownat = 260"
| "SYSCALL_NAME_TO_NUMBER NR_sendfile = 40"
| "SYSCALL_NAME_TO_NUMBER NR_copy_file_range = 326"
| "SYSCALL_NAME_TO_NUMBER NR_name_to_handle_at = 303"
| "SYSCALL_NAME_TO_NUMBER NR_fork = 57"
| "SYSCALL_NAME_TO_NUMBER NR_clone = 56"

text \<open>
  The classic BPF instructions the filter is made of: load the system call number into
  the accumulator, compare the accumulator with a constant and skip \<open>jt\<close> or \<open>jf\<close>
  instructions, return a verdict.
\<close>

datatype seccomp_ret = SECCOMP_RET_TRACE | SECCOMP_RET_ALLOW

datatype sock_filter =
    BPF_LD_NR
  | BPF_JEQ cint nat nat
  | BPF_RET seccomp_ret

definition TRACE_SYSCALL :: "syscall_name \<Rightarrow> sock_filter list" where
  "TRACE_SYSCALL name =
     [BPF_JEQ (SYSCALL_NAME_TO_NUMBER name) 0 1, BPF_RET SECCOMP_RET_TRACE]"

text \<open>The system calls of the filter table, in the order of the source.\<close>

definition traced_syscalls :: "syscall_name list" where
  "traced_syscalls =
    [NR_execveat, NR_execve, NR_stat, NR_lstat, NR_fstat, NR_newfstatat, NR_access,
     NR_faccessat, NR_creat, NR_open, NR_openat, NR_write, NR_writev, NR_pwritev,
     NR_pwritev2, NR_pwrite64, NR_truncate, NR_ftruncate, NR_rmdir, NR_rename,
     NR_renameat, NR_renameat2, NR_link, NR_linkat, NR_unlink, NR_unlinkat, NR_symlink,
     NR_symlinkat, NR_readlink, NR_readlinkat, NR_utime, NR_utimes, NR_utimensat,
     NR_futimesat, NR_mkdir, NR_mkdirat, NR_mknod, NR_mknodat, NR_chmod, NR_fchmod,
     NR_fchmodat, NR_chown, NR_fchown, NR_lchown, NR_fchownat, NR_sendfile,
     NR_copy_file_range, NR_name_to_handle_at, NR_fork, NR_clone]"

definition filter_prog :: "sock_filter list" where
  "filter_prog =
     [BPF_LD_NR] @ concat (map TRACE_SYSCALL traced_syscalls) @ [BPF_RET SECCOMP_RET_ALLOW]"

text \<open>
  Running a filter on a system call number: the accumulator \<open>A\<close>, the instructions from
  the program counter on. Jumps only go forward. Falling off the end gives no verdict.
\<close>

function bpf_run :: "sock_filter list \<Rightarrow> cint \<Rightarrow> cint \<Rightarrow> seccomp_ret option" where
  "bpf_run [] nr A = None"
| "bpf_run (BPF_LD_NR # p) nr A = bpf_run p nr nr"
| "bpf_run (BPF_JEQ k jt jf # p) nr A = bpf_run (drop (if A = k then jt else jf) p) nr A"
| "bpf_run (BPF_RET r # p) nr A = Some r"
  by pat_completeness auto
termination
  by (relation "measure (\<lambda>(p, nr, A). length p)") auto

definition seccomp_verdict :: "cint \<Rightarrow> seccomp_ret option" where
  "seccomp_verdict nr = bpf_run filter_prog nr 0"

text \<open>
  \<open>HandleSysCallGeneric\<close> is a \<open>switch\<close> over the system call number with one
  \<open>CHECK_AND_CALL_HANDLER\<close> case per name below, in this order, and a \<open>default\<close> branch that
  only logs. The case labels are distinct, so the branch taken is the first name whose
  number matches; \<open>None\<close> is the default branch.
\<close>

definition handled_syscalls :: "syscall_name list" where
  "handled_syscalls =
    [NR_execveat, NR_execve, NR_stat, NR_lstat, NR_fstat, NR_newfstatat, NR_access,
     NR_faccessat, NR_creat, NR_open, NR_openat, NR_write, NR_writev, NR_pwritev,
     NR_pwritev2, NR_pwrite64, NR_truncate, NR_ftruncate, NR_rmdir, NR_rename,
     NR_renameat, NR_link, NR_linkat, NR_unlink, NR_unlinkat, NR_symlink, NR_symlinkat,
     NR_readlink, NR_readlinkat, NR_utime, NR_utimes, NR_utimensat, NR_futimesat,
     NR_mkdir, NR_mkdirat, NR_mknod, NR_mknodat, NR_chmod, NR_fchmod, NR_fchmodat,
     NR_chown, NR_fchown, NR_lchown, NR_fchownat, NR_sendfile, NR_copy_file_range,
     NR_name_to_handle_at, NR_fork, NR_clone]"

definition dispatch :: "cint \<Rightarrow> syscall_name option" where
  "dispatch syscallNumber =
     find (\<lambda>name. SYSCALL_NAME_TO_NUMBER name = syscallNumber) handled_syscalls"

text \<open>The handler that each \<open>CHECK_AND_CALL_HANDLER\<close> case calls.\<close>

fun handler ::
  "syscall_name \<Rightarrow> BxlObserver \<Rightarrow> tracee_stop \<Rightarrow> PTraceSandbox \<Rightarrow> PTraceSandbox" where
  "handler NR_execveat = Handleexecveat"
| "handler NR_execve = Handleexecve"
| "handler NR_stat = Handlestat"
| "handler NR_lstat = Handlelstat"
| "handler NR_fstat = Handlefstat"
| "handler NR_newfstatat = Handlenewfstatat"
| "handler NR_access = Handleaccess"
| "handler NR_faccessat = Handlefaccessat"
| "handler NR_creat = Handlecreat"
| "handler NR_open = Handleopen"
| "handler NR_openat = Handleopenat"
| "handler NR_write = Handlewrite"
| "handler NR_writev = Handlewritev"
| "handler NR_pwritev = Handlepwritev"
| "handler NR_pwritev2 = Handlepwritev2"
| "handler NR_pwrite64 = Handlepwrite64"
| "handler NR_truncate = Handletruncate"
| "handler NR_ftruncate = Handleftruncate"
| "handler NR_rmdir = Handlermdir"
| "handler NR_rename = Handlerename"
| "handler NR_renameat = Handlerenameat"
| "handler NR_renameat2 = Handlerenameat2"
| "handler NR_link = Handlelink"
| "handler NR_linkat = Handlelinkat"
| "handler NR_unlink = Handleunlink"
| "handler NR_unlinkat = Handleunlinkat"
| "handler NR_symlink = Handlesymlink"
| "handler NR_symlinkat = Handlesymlinkat"
| "handler NR_readlink = Handlereadlink"
| "handler NR_readlinkat = Handlereadlinkat"
| "handler NR_utime = Handleutime"
| "handler NR_utimes = Handleutimes"
| "handler NR_utimensat = Handleutimensat"
| "handler NR_futimesat = Handlefutimesat"
| "handler NR_mkdir = Handlemkdir"
| "handler NR_mkdirat = Handlemkdirat"
| "handler NR_mknod = Handlemknod"
| "handler NR_mknodat = Handlemknodat"
| "handler NR_chmod = Handlechmod"
| "handler NR_fchmod = Handlefchmod"
| "handler NR_fchmodat = Handlefchmodat"
| "handler NR_chown = Handlechown"
| "handler NR_fchown = Handlefchown"
| "handler NR_lchown = Handlelchown"
| "handler NR_fchownat = Handlefchownat"
| "handler NR_sendfile = Handlesendfile"
| "handler NR_copy_file_range = Handlecopy_file_range"
| "handler NR_name_to_handle_at = Handlename_to_handle_at"
| "handler NR_fork = Handlefork"
| "handler NR_clone = Handleclone"

definition HandleSysCallGeneric ::
  "BxlObserver \<Rightarrow> tracee_stop \<Rightarrow> cint \<Rightarrow> PTraceSandbox \<Rightarrow> PTraceSandbox" where
  "HandleSysCallGeneric bxl t syscallNumber s =
     (case dispatch syscallNumber of
        Some name \<Rightarrow> handler name bxl t s
      | None \<Rightarrow> s)"

section \<open>Reading a string from the tracee's memory\<close>

text \<open>
  \<open>PTRACE_PEEKTEXT\<close> gives the word at an address, and \<open>-1\<close> when the read faults; the
  reader cannot tell a fault from a word whose bits are all ones. The tracee's memory is
  the function \<open>peek\<close>. A \<open>long\<close> is eight characters, lowest byte first.
\<close>

definition long_chars :: "long \<Rightarrow> char list" where
  "long_chars w = map (\<lambda>i. char_of (unat (drop_bit (8 * i) w))) [0..<8]"

text \<open>
  The \<open>for\<close> loop over the characters of one word. It gives \<open>finishedReadingArgument\<close>,
  \<open>currentStringLength\<close> and \<open>argument\<close> as they are when the loop is left.
\<close>

fun read_chars :: "bool \<Rightarrow> int \<Rightarrow> char list \<Rightarrow> int \<Rightarrow> string \<Rightarrow> bool \<times> int \<times> string" where
  "read_chars nullTerminated len [] currentStringLength argument =
     (False, currentStringLength, argument)"
| "read_chars nullTerminated len (c # cs) currentStringLength argument =
     (if (nullTerminated \<and> c = CHR 0x00) \<or> (0 < len \<and> currentStringLength = len)
      then (True, currentStringLength, argument)
      else read_chars nullTerminated len cs (currentStringLength + 1) (argument @ [c]))"

text \<open>
  The \<open>while (true)\<close> loop. It need not end, so the result is an option: \<open>None\<close> when the
  loop runs forever.
\<close>

partial_function (option) read_words ::
  "(long \<Rightarrow> long) \<Rightarrow> long \<Rightarrow> bool \<Rightarrow> int \<Rightarrow> int \<Rightarrow> string \<Rightarrow> string option" where
  "read_words peek addr nullTerminated len currentStringLength argument =
     (let addrMemoryLocation = peek addr
      in if addrMemoryLocation = - 1 then Some argument
         else (case read_chars nullTerminated len (long_chars addrMemoryLocation)
                      currentStringLength argument of
                 (finishedReadingArgument, currentStringLength', argument') \<Rightarrow>
                   if finishedReadingArgument then Some argument'
                   else read_words peek (addr + 8) nullTerminated len
                          currentStringLength' argument'))"

definition ReadArgumentStringAtAddr ::
  "(long \<Rightarrow> long) \<Rightarrow> long \<Rightarrow> bool \<Rightarrow> int \<Rightarrow> string option" where
  "ReadArgumentStringAtAddr peek addr nullTerminated len =
     read_words peek addr nullTerminated len 0 []"

section \<open>The bootstrap of the tracee\<close>

text \<open>
  \<open>ExecuteWithPTraceSandbox\<close> is a straight line of calls on the operating system, each
  of which may fail. The results of the calls are the parameters; the function gives the
  calls made, in order, and how it ends. \<open>real__exit\<close> does not return.
\<close>

record timespec =
  tv_sec :: int
  tv_nsec :: int

type_synonym sem_t = nat

record bootstrap_os =
  getpid :: pid_t
  to_string :: "pid_t \<Rightarrow> string"
  sem_open :: "string \<Rightarrow> sem_t option"
  clock_gettime :: "int \<times> timespec"
  sem_timedwait :: "sem_t \<Rightarrow> timespec \<Rightarrow> int"
  prctl_no_new_privs :: int
  prctl_set_seccomp :: "sock_filter list \<Rightarrow> int"
  real_execvpe :: "string \<Rightarrow> string list \<Rightarrow> string list \<Rightarrow> int option"

datatype os_call =
    call_sem_open string
  | call_clock_gettime
  | call_sem_timedwait sem_t timespec
  | call_sem_close sem_t
  | call_sem_unlink string
  | BXL_LOG_DEBUG string
  | real_fprintf_stderr string
  | real_printf string
  | call_prctl_no_new_privs
  | call_prctl_set_seccomp "sock_filter list"
  | call_real_exit int
  | call_real_execvpe string "string list" "string list"

datatype outcome = Exited int | ImageReplaced | Returned int

text \<open>
  The diagnostics carry their format strings. \<open>tv_sec\<close> is kept as an unbounded
  integer. When \<open>real_execvpe\<close> succeeds the image is replaced and the function does not
  return (\<open>None\<close>); otherwise the function returns what the call returned.
\<close>

definition ExecuteWithPTraceSandbox ::
  "bootstrap_os \<Rightarrow> string \<Rightarrow> string list \<Rightarrow> string list \<Rightarrow> os_call list \<times> outcome" where
  "ExecuteWithPTraceSandbox os file argv envp =
     (let semaphoreName = ''/'' @ to_string os (getpid os);
          c1 = [call_sem_open semaphoreName]
      in case sem_open os semaphoreName of
           None \<Rightarrow>
             (c1 @ [BXL_LOG_DEBUG ''[PTrace] sem_open failed with: '', call_real_exit (- 1)],
              Exited (- 1))
         | Some semaphoreTracee \<Rightarrow>
             (case clock_gettime os of (rc, ts0) \<Rightarrow>
                let c2 = c1 @ [call_clock_gettime]
                in if rc = - 1
                   then (c2 @ [real_fprintf_stderr ''[BuildXL] clock_gettime failed: '',
                               call_real_exit (- 1)],
                         Exited (- 1))
                   else
                     let ts = ts0\<lparr>tv_sec := tv_sec ts0 + 15\<rparr>;
                         waitResult = sem_timedwait os semaphoreTracee ts;
                         c3 = c2 @ [call_sem_timedwait semaphoreTracee ts,
                                    call_sem_close semaphoreTracee,
                                    call_sem_unlink semaphoreName]
                     in if waitResult = - 1
                        then (c3 @ [real_fprintf_stderr
                                      (''[PTrace] PTraceRunner failed to respond within '' @
                                       ''15 seconds with error: ''),
                                    call_real_exit (- 1)],
                              Exited (- 1))
                        else
                          let c4 = c3 @ [call_prctl_no_new_privs]
                          in if prctl_no_new_privs os = - 1
                             then (c4 @ [BXL_LOG_DEBUG ''prctl(PR_SET_NO_NEW_PRIVS) failed '',
                                         real_printf ''prctl(PR_SET_NO_NEW_PRIVS) failed'',
                                         call_real_exit (- 1)],
                                   Exited (- 1))
                             else
                               let c5 = c4 @ [call_prctl_set_seccomp filter_prog]
                               in if prctl_set_seccomp os filter_prog = - 1
                                  then (c5 @ [BXL_LOG_DEBUG
                                                ''PR_SET_SECCOMP with SECCOMP_MODE_FILTER failed '',
                                              real_printf
                                                ''PR_SET_SECCOMP with SECCOMP_MODE_FILTER failed'',
                                              call_real_exit (- 1)],
                                        Exited (- 1))
                                  else
                                    (c5 @ [call_real_execvpe file argv envp],
                                     case real_execvpe os file argv envp of
                                       None \<Rightarrow> ImageReplaced
                                     | Some r \<Rightarrow> Returned r)))"

text \<open>The exit status a parent sees is the low eight bits of the argument of \<open>_exit\<close>.\<close>

definition exit_status :: "int \<Rightarrow> int" where
  "exit_status code = code mod 256"

declare read_words.simps [code]

section \<open>Expected reports of a directory rename\<close>

text \<open>
  The two reports that one enumerated entry of a renamed directory gives rise to: the
  unlink of the entry, and the report of the path with the first \<open>length oldStr\<close>
  characters replaced by \<open>newStr\<close>, which is a create when that path has no mode yet and
  an open otherwise.
\<close>

definition rename_reports ::
  "BxlObserver \<Rightarrow> string \<Rightarrow> pid_t \<Rightarrow> string \<Rightarrow> string \<Rightarrow> string \<Rightarrow> sink_call list" where
  "rename_reports bxl syscall pid oldStr newStr entry =
     (let renamed = newStr @ drop (length oldStr) entry
      in [report_access_path syscall ES_EVENT_TYPE_NOTIFY_UNLINK entry (get_mode bxl entry)
            O_NOFOLLOW 0 True pid,
          report_access_event syscall
            \<lparr>ev_pid = pid, ev_cpid = 0, ev_ppid = 0,
             ev_type = (if get_mode bxl renamed = 0 then ES_EVENT_TYPE_NOTIFY_CREATE
                        else ES_EVENT_TYPE_NOTIFY_OPEN),
             ev_action = ES_ACTION_TYPE_NOTIFY,
             ev_src = renamed, ev_dst = [], ev_exec = GetProgramPath bxl,
             ev_mode = get_mode bxl renamed, ev_modified = False, ev_error = 0\<rparr> None])"

section \<open>A concrete observer, tracee and operating system\<close>

text \<open>
  A small file system under \<open>/w\<close>, the working directory: the directory \<open>/w/a\<close> with the
  file \<open>/w/a/f\<close>, and the files \<open>/w/b/f\<close> and \<open>/w/out.txt\<close>. File descriptor 3 is a pipe.
\<close>

definition example_basename :: "string \<Rightarrow> string" where
  "example_basename p = rev (takeWhile (\<lambda>c. c \<noteq> CHR ''/'') (rev p))"

definition example_normalize :: "string \<Rightarrow> string" where
  "example_normalize p = (if first_char p = CHR ''/'' then p else ''/w/'' @ p)"

definition example_bxl :: BxlObserver where
  "example_bxl =
     \<lparr>get_mode = (\<lambda>p. if p = ''/w/a'' then S_IFDIR OR 0x1ED
                      else if p = ''/w/a/f'' \<or> p = ''/w/b/f'' \<or> p = ''/w/out.txt''
                           then S_IFREG OR 0x1A4
                      else 0),
      normalize_path = (\<lambda>p oflags pid. example_normalize p),
      normalize_path_at = (\<lambda>dirfd p oflags pid. example_normalize p),
      fd_to_path = (\<lambda>fd pid. if fd = 3 then ''pipe:[7]'' else ''/w/out.txt''),
      EnumerateDirectory = (\<lambda>p recursive. if p = ''/w/a'' then (True, [''/w/a/f''])
                                             else (False, [])),
      GetProgramPath = ''/usr/bin/tool'',
      IsReportingProcessArgs = True,
      basename = example_basename\<rparr>"

definition example_stop :: "(nat \<Rightarrow> long) \<Rightarrow> (nat \<Rightarrow> string) \<Rightarrow> long \<Rightarrow> tracee_stop" where
  "example_stop longs strings ret =
     \<lparr>ReadArgumentLong = longs, ReadArgumentString = strings,
      ReadArgumentVector = (\<lambda>i. ''tool -x''), ReturnValue = ret\<rparr>"

text \<open>The tracer after it has attached to pid 100.\<close>

definition example_sandbox :: PTraceSandbox where
  "example_sandbox =
     \<lparr>m_traceePid = 100, m_traceeTable = [(100, ''/usr/bin/tool'')], reported = []\<rparr>"

text \<open>An operating system on which the tracer never posts the semaphore.\<close>

definition example_os :: bootstrap_os where
  "example_os =
     \<lparr>getpid = 4242,
      to_string = (\<lambda>pid. ''4242''),
      sem_open = (\<lambda>name. Some 1),
      clock_gettime = (0, \<lparr>tv_sec = 1000, tv_nsec = 5\<rparr>),
      sem_timedwait = (\<lambda>sem ts. - 1),
      prctl_no_new_privs = 0,
      prctl_set_seccomp = (\<lambda>prog. 0),
      real_execvpe = (\<lambda>file argv envp. None)\<rparr>"

text \<open>A memory in which every word is \<open>0x41\<close> but the one at \<open>0x1010\<close>, which reads \<open>-1\<close>.\<close>

definition example_peek :: "long \<Rightarrow> long" where
  "example_peek addr = (if addr = 0x1010 then - 1 else 0x41)"

section \<open>Auxiliary facts\<close>

lemmas example_defs =
  example_bxl_def example_stop_def example_sandbox_def example_normalize_def
  example_basename_def first_char_def

lemma m_traceePid_emit [simp]: "m_traceePid (emit c s) = m_traceePid s"
  by (simp add: emit_def)

lemma m_traceeTable_emit [simp]: "m_traceeTable (emit c s) = m_traceeTable s"
  by (simp add: emit_def)

lemma reported_emit [simp]: "reported (emit c s) = reported s @ [c]"
  by (simp add: emit_def)

lemma push_back_simps [simp]:
  "m_traceePid (push_back item s) = m_traceePid s"
  "m_traceeTable (push_back item s) = m_traceeTable s @ [item]"
  "reported (push_back item s) = reported s"
  by (simp_all add: push_back_def)

lemma ReportOpen_simps [simp]:
  "m_traceePid (ReportOpen bxl path oflag name s) = m_traceePid s"
  "m_traceeTable (ReportOpen bxl path oflag name s) = m_traceeTable s"
  by (simp_all add: ReportOpen_def Let_def)

subsection \<open>The open family\<close>

text \<open>
  Both operands \<open>O_ACCMODE == O_WRONLY\<close> and \<open>O_ACCMODE == O_RDWR\<close> are 0, so \<open>isWrite\<close> is
  false whatever the mode and the flags are, and no open is reported as a write.
\<close>

lemma isWrite_never: "\<not> isWrite pathMode oflag"
  by (simp add: isWrite_def c_eq_def O_ACCMODE_def O_WRONLY_def O_RDWR_def)

lemma open_event_type_eq:
  "open_event_type pathMode oflag =
     (if pathMode = 0 \<and> oflag AND (O_CREAT OR O_TRUNC) \<noteq> 0 then ES_EVENT_TYPE_NOTIFY_CREATE
      else ES_EVENT_TYPE_NOTIFY_OPEN)"
  by (simp add: open_event_type_def isCreate_def isWrite_never)

lemma open_event_type_O_CREAT:
  "open_event_type m O_CREAT =
     (if m = 0 then ES_EVENT_TYPE_NOTIFY_CREATE else ES_EVENT_TYPE_NOTIFY_OPEN)"
  by (simp add: open_event_type_eq O_CREAT_def O_TRUNC_def)

subsection \<open>The error value\<close>

text \<open>
  \<open>GetErrno\<close> is the complement of the low half of the return register: it is 0 for the
  return value 0 and for every return value whose low 32 bits are all ones.
\<close>

lemma GetErrno_zero_iff:
  "GetErrno t = 0 \<longleftrightarrow> ReturnValue t = 0 \<or> (ucast (ReturnValue t) :: 32 word) = - 1"
proof -
  have a: "(0xffffffffffffffff :: 64 word) - x = NOT x" for x
    by (simp add: not_eq_complement)
  have b: "(ucast (NOT x) :: 32 word) = NOT (ucast x)" for x :: "64 word"
    by (rule bit_word_eqI) (auto simp add: bit_simps)
  have c: "(NOT y = 0) = (y = - 1)" for y :: "32 word"
    by (metis word_bitwise_m1_simps(1) word_not_not)
  show ?thesis
  proof (cases "ReturnValue t = 0")
    case True
    then show ?thesis by (simp add: GetErrno_def)
  next
    case False
    then have "GetErrno t = NOT (ucast (ReturnValue t))"
      unfolding GetErrno_def Let_def using a b by simp
    with False show ?thesis by (simp add: c)
  qed
qed

subsection \<open>The filter and the dispatcher\<close>

lemma bpf_run_trace:
  "bpf_run (concat (map TRACE_SYSCALL names) @ [BPF_RET SECCOMP_RET_ALLOW]) nr A =
     Some (if A \<in> SYSCALL_NAME_TO_NUMBER ` set names then SECCOMP_RET_TRACE
           else SECCOMP_RET_ALLOW)"
  by (induction names) (auto simp add: TRACE_SYSCALL_def)

lemma seccomp_verdict_eq:
  "seccomp_verdict nr =
     Some (if nr \<in> SYSCALL_NAME_TO_NUMBER ` set traced_syscalls then SECCOMP_RET_TRACE
           else SECCOMP_RET_ALLOW)"
  by (simp add: seccomp_verdict_def filter_prog_def bpf_run_trace)

lemma find_Some_ex: "(\<exists>x. find P xs = Some x) \<longleftrightarrow> (\<exists>x\<in>set xs. P x)"
  by (induction xs) auto

lemma dispatch_Some_iff:
  "(\<exists>name. dispatch nr = Some name) \<longleftrightarrow> nr \<in> SYSCALL_NAME_TO_NUMBER ` set handled_syscalls"
  by (auto simp add: dispatch_def find_Some_ex)

text \<open>
  The filter and the dispatcher agree on every system call number but that of
  \<open>renameat2\<close>, which the filter alone knows.
\<close>

lemma traced_eq_handled_plus_renameat2:
  "set traced_syscalls = insert NR_renameat2 (set handled_syscalls)"
  by (simp add: traced_syscalls_def handled_syscalls_def insert_commute)

lemma surfaced_iff:
  "seccomp_verdict nr = Some SECCOMP_RET_TRACE \<longleftrightarrow>
     (\<exists>name. dispatch nr = Some name) \<or> nr = SYSCALL_NAME_TO_NUMBER NR_renameat2"
  unfolding seccomp_verdict_eq dispatch_Some_iff traced_eq_handled_plus_renameat2
  by auto

subsection \<open>The rename loop\<close>

lemma rename_entry_reported:
  "reported (rename_entry bxl syscall oldStr newStr e s) =
     reported s @ rename_reports bxl syscall (m_traceePid s) oldStr newStr e"
  by (simp add: rename_entry_def rename_reports_def ReportOpen_def Let_def
      string_replace_def open_event_type_O_CREAT)

lemma rename_entry_pid [simp]:
  "m_traceePid (rename_entry bxl syscall oldStr newStr e s) = m_traceePid s"
  by (simp add: rename_entry_def Let_def)

lemma rename_entries_reported:
  "reported (rename_entries bxl syscall oldStr newStr es s) =
     reported s @ concat (map (rename_reports bxl syscall (m_traceePid s) oldStr newStr) es)"
  by (induction es arbitrary: s) (simp_all add: rename_entry_reported)

lemma length_rename_reports [simp]:
  "length (rename_reports bxl syscall pid oldStr newStr e) = 2"
  by (simp add: rename_reports_def Let_def)

lemma length_concat_rename_reports:
  "length (concat (map (rename_reports bxl syscall pid oldStr newStr) es)) = 2 * length es"
  by (induction es) simp_all

subsection \<open>The tracee table\<close>

lemma FindProcess_None_iff: "FindProcess pid table = None \<longleftrightarrow> pid \<notin> fst ` set table"
  by (induction table) auto

lemma FindProcess_Some:
  "FindProcess pid table = Some i \<Longrightarrow> i < length table \<and> fst (table ! i) = pid"
  by (induction table arbitrary: i) (auto split: if_splits)

text \<open>
  The mutations that keep the pids of the table distinct: the first attach, the update on
  exec, the removal on exit. The append of a child keeps them distinct exactly when the
  value read from the return register is not yet a pid of the table.
\<close>

lemma distinct_AttachToProcess:
  "AttachToProcess a b pid exe new_PTraceSandbox = Some s \<Longrightarrow>
   distinct (map fst (m_traceeTable s))"
  by (auto simp add: AttachToProcess_def new_PTraceSandbox_def push_back_def split: if_splits)

lemma distinct_UpdateTraceeTableForExec:
  assumes "distinct (map fst (m_traceeTable s))"
  shows "distinct (map fst (m_traceeTable (UpdateTraceeTableForExec exePath s)))"
proof (cases "FindProcess (m_traceePid s) (m_traceeTable s)")
  case None
  then have "m_traceePid s \<notin> fst ` set (m_traceeTable s)"
    by (simp add: FindProcess_None_iff)
  with None assms show ?thesis
    by (simp add: UpdateTraceeTableForExec_def)
next
  case (Some i)
  then have "i < length (m_traceeTable s)"
    by (simp add: FindProcess_Some)
  then have "map fst ((m_traceeTable s)[i := (fst (m_traceeTable s ! i), exePath)]) =
      map fst (m_traceeTable s)"
    by (simp add: map_update list_update_same_conv)
  with Some assms show ?thesis
    by (simp add: UpdateTraceeTableForExec_def)
qed

lemma distinct_RemoveFromTraceeTable:
  "distinct (map fst (m_traceeTable s)) \<Longrightarrow>
   distinct (map fst (m_traceeTable (RemoveFromTraceeTable s)))"
  by (simp add: RemoveFromTraceeTable_def Handleexit_def distinct_map_filter)

lemma distinct_HandleChildProcess:
  "distinct (map fst (m_traceeTable s)) \<Longrightarrow>
   distinct (map fst (m_traceeTable (HandleChildProcess bxl syscall t s))) \<longleftrightarrow>
     ucast (ReturnValue t) \<notin> fst ` set (m_traceeTable s)"
  by (simp add: HandleChildProcess_def Let_def)

subsection \<open>The string reader\<close>

lemma read_chars_never_finished:
  "\<not> nullTerminated \<Longrightarrow> len \<le> 0 \<Longrightarrow>
   read_chars nullTerminated len cs cur arg = (False, cur + int (length cs), arg @ cs)"
  by (induction cs arbitrary: cur arg) simp_all

lemma read_words_Some_fault_aux:
  assumes "read_words peek addr nullTerminated len cur arg = Some r"
  shows "\<not> nullTerminated \<and> len \<le> 0 \<longrightarrow> (\<exists>k. peek (addr + 8 * of_nat k) = - 1)"
  using assms
proof (rule read_words.raw_induct
    [rotated, where P = "\<lambda>(peek :: long \<Rightarrow> long) addr nullTerminated len cur arg r.
       \<not> nullTerminated \<and> len \<le> 0 \<longrightarrow> (\<exists>k. peek (addr + 8 * of_nat k) = - 1)"])
  fix read_words' :: "(long \<Rightarrow> long) \<Rightarrow> long \<Rightarrow> bool \<Rightarrow> int \<Rightarrow> int \<Rightarrow> string \<Rightarrow> string option"
    and peek addr nullTerminated len cur arg r
  assume IH: "\<And>peek addr nullTerminated len cur arg r.
      read_words' peek addr nullTerminated len cur arg = Some r \<Longrightarrow>
      \<not> nullTerminated \<and> len \<le> 0 \<longrightarrow> (\<exists>k. peek (addr + 8 * of_nat k) = - 1)"
    and step: "(let addrMemoryLocation = peek addr
      in if addrMemoryLocation = - 1 then Some arg
         else (case read_chars nullTerminated len (long_chars addrMemoryLocation) cur arg of
                 (finishedReadingArgument, currentStringLength', argument') \<Rightarrow>
                   if finishedReadingArgument then Some argument'
                   else read_words' peek (addr + 8) nullTerminated len
                          currentStringLength' argument')) = Some r"
  show "\<not> nullTerminated \<and> len \<le> 0 \<longrightarrow> (\<exists>k. peek (addr + 8 * of_nat k) = - 1)"
  proof (intro impI)
    assume h: "\<not> nullTerminated \<and> len \<le> 0"
    show "\<exists>k. peek (addr + 8 * of_nat k) = - 1"
    proof (cases "peek addr = - 1")
      case True
      then have "peek (addr + 8 * of_nat (0::nat)) = - 1" by simp
      then show ?thesis by blast
    next
      case False
      with step h have "read_words' peek (addr + 8) nullTerminated len
          (cur + int (length (long_chars (peek addr)))) (arg @ long_chars (peek addr)) = Some r"
        by (simp add: Let_def read_chars_never_finished)
      from IH [OF this] h obtain k where "peek (addr + 8 + 8 * of_nat k) = - 1"
        by blast
      then have "peek (addr + 8 * of_nat (Suc k)) = - 1"
        by (simp add: algebra_simps)
      then show ?thesis by blast
    qed
  qed
qed

lemma read_words_Some_fault:
  assumes "read_words peek addr nullTerminated len cur arg = Some r"
    and "\<not> nullTerminated" and "len \<le> 0"
  shows "\<exists>k. peek (addr + 8 * of_nat k) = - 1"
  using read_words_Some_fault_aux [OF assms(1)] assms(2,3) by blast

lemma read_words_fault_Some:
  assumes "peek (addr + 8 * of_nat k) = - 1" and "\<not> nullTerminated" and "len \<le> 0"
  shows "\<exists>r. read_words peek addr nullTerminated len cur arg = Some r"
  using assms
proof (induction k arbitrary: addr cur arg)
  case 0
  then show ?case by (subst read_words.simps) simp
next
  case (Suc k)
  from Suc.prems(1) have "peek ((addr + 8) + 8 * of_nat k) = - 1"
    by (simp add: algebra_simps)
  from Suc.IH [OF this Suc.prems(2,3)] show ?case
    by (subst read_words.simps) (simp add: Let_def read_chars_never_finished Suc.prems)
qed

section \<open>The claims\<close>

text \<open>
  C1. The claim: an open of an existing path with a writable access mode is reported as
  \<open>NOTIFY_WRITE\<close>. The code does not do so. On the file \<open>/w/out.txt\<close>, which exists,
  \<open>open(path, O_WRONLY | O_TRUNC)\<close> and \<open>creat(path)\<close> are each reported as one
  \<open>NOTIFY_OPEN\<close> event.
\<close>

theorem ReportOpen_writable_open_of_existing_path_is_NOTIFY_OPEN:
  "reported (Handleopen example_bxl
      (example_stop (\<lambda>i. if i = 2 then ucast (O_WRONLY OR O_TRUNC) else 0)
         (\<lambda>i. ''/w/out.txt'') 0)
      example_sandbox) =
     [report_access_event ''open''
        \<lparr>ev_pid = 100, ev_cpid = 0, ev_ppid = 0, ev_type = ES_EVENT_TYPE_NOTIFY_OPEN,
         ev_action = ES_ACTION_TYPE_NOTIFY, ev_src = ''/w/out.txt'', ev_dst = [],
         ev_exec = ''/usr/bin/tool'', ev_mode = 0x81A4, ev_modified = False,
         ev_error = 0\<rparr> None]
   \<and> reported (Handlecreat example_bxl
      (example_stop (\<lambda>i. 0) (\<lambda>i. ''/w/out.txt'') 0) example_sandbox) =
     [report_access_event ''creat''
        \<lparr>ev_pid = 100, ev_cpid = 0, ev_ppid = 0, ev_type = ES_EVENT_TYPE_NOTIFY_OPEN,
         ev_action = ES_ACTION_TYPE_NOTIFY, ev_src = ''/w/out.txt'', ev_dst = [],
         ev_exec = ''/usr/bin/tool'', ev_mode = 0x81A4, ev_modified = False,
         ev_error = 0\<rparr> None]"
  by (simp add: Handleopen_def Handlecreat_def ReportOpen_def open_event_type_eq
      O_WRONLY_def O_TRUNC_def S_IFREG_def example_defs)

text \<open>
  C2. The claim: the error code of a \<open>mkdir\<close>, \<open>mkdirat\<close> or \<open>rmdir\<close> event is 0 only
  when the system call returned 0. The code does not do so. When the system call returns
  \<open>-1\<close> (the kernel's \<open>-EPERM\<close>), \<open>GetErrno\<close> is \<open>~0 - (-1) = 0\<close>, and the events of all
  three handlers carry the error code 0.
\<close>

theorem GetErrno_of_return_minus_one_is_zero:
  "GetErrno (example_stop (\<lambda>i. 0) (\<lambda>i. ''/ro/x'') (- 1)) = 0
   \<and> reported (Handlemkdir example_bxl
        (example_stop (\<lambda>i. 0) (\<lambda>i. ''/ro/x'') (- 1)) example_sandbox) =
       [report_access_event ''mkdir''
          \<lparr>ev_pid = 100, ev_cpid = 0, ev_ppid = 0, ev_type = ES_EVENT_TYPE_NOTIFY_CREATE,
           ev_action = ES_ACTION_TYPE_NOTIFY, ev_src = ''/ro/x'', ev_dst = [],
           ev_exec = ''/usr/bin/tool'', ev_mode = 0x4000, ev_modified = False,
           ev_error = 0\<rparr> (Some False)]
   \<and> reported (Handlemkdirat example_bxl
        (example_stop (\<lambda>i. if i = 1 then 5 else 0) (\<lambda>i. ''/ro/x'') (- 1)) example_sandbox) =
       [report_access_event ''mkdirat''
          \<lparr>ev_pid = 100, ev_cpid = 0, ev_ppid = 0, ev_type = ES_EVENT_TYPE_NOTIFY_CREATE,
           ev_action = ES_ACTION_TYPE_NOTIFY, ev_src = ''/ro/x'', ev_dst = [],
           ev_exec = ''/usr/bin/tool'', ev_mode = 0x4000, ev_modified = False,
           ev_error = 0\<rparr> (Some False)]
   \<and> reported (Handlermdir example_bxl
        (example_stop (\<lambda>i. 0) (\<lambda>i. ''/ro/x'') (- 1)) example_sandbox) =
       [report_access_paths ''rmdir'' ES_EVENT_TYPE_NOTIFY_UNLINK ''/ro/x'' [] 0x4000 0 False
          100]"
  by (simp add: Handlemkdir_def Handlemkdirat_def Handlermdir_def ReportCreate_def GetErrno_def
      S_IFDIR_def example_defs)

text \<open>
  C3. The claim: every system call number that the filter surfaces has a case in the
  dispatcher. The code does not do so. The filter sends \<open>renameat2\<close> (316) to the tracer,
  the dispatcher has no case for it, and \<open>HandleSysCallGeneric\<close> takes its default branch,
  which reports nothing, whatever the tracee and the tracer's state are.
\<close>

theorem renameat2_is_surfaced_and_not_dispatched:
  "seccomp_verdict (SYSCALL_NAME_TO_NUMBER NR_renameat2) = Some SECCOMP_RET_TRACE
   \<and> dispatch (SYSCALL_NAME_TO_NUMBER NR_renameat2) = None
   \<and> HandleSysCallGeneric bxl t (SYSCALL_NAME_TO_NUMBER NR_renameat2) s = s"
  by (simp add: seccomp_verdict_eq traced_syscalls_def HandleSysCallGeneric_def dispatch_def
      handled_syscalls_def)

text \<open>
  C4, as amended. When the source of a rename is a directory whose enumeration succeeds
  with the entries \<open>entries\<close>, the handler reports, for each entry in order, the pair
  \<open>rename_reports\<close>: a \<open>NOTIFY_UNLINK\<close> of the entry, then an event for the entry with its
  first \<open>length oldStr\<close> characters replaced by \<open>newStr\<close>; that event is a
  \<open>NOTIFY_CREATE\<close> when the rewritten path does not exist yet and a \<open>NOTIFY_OPEN\<close> when it
  does. These are \<open>2 * length entries\<close> reports, and for an entry that starts with
  \<open>oldStr\<close> the rewritten path is \<open>newStr\<close> followed by the rest of the entry.
\<close>

theorem HandleRenameGeneric_directory_reports:
  assumes "oldStr = normalize_path_at bxl olddirfd oldpath O_NOFOLLOW (m_traceePid s)"
    and "newStr = normalize_path_at bxl newdirfd newpath O_NOFOLLOW (m_traceePid s)"
    and "S_ISDIR (get_mode bxl oldStr)"
    and "EnumerateDirectory bxl oldStr True = (True, entries)"
  shows "reported (HandleRenameGeneric bxl syscall olddirfd oldpath newdirfd newpath s) =
           reported s @
           concat (map (rename_reports bxl syscall (m_traceePid s) oldStr newStr) entries)
       \<and> length (concat (map (rename_reports bxl syscall (m_traceePid s) oldStr newStr) entries))
           = 2 * length entries
       \<and> string_replace (oldStr @ rest) 0 (length oldStr) newStr = newStr @ rest"
  using assms
  by (simp add: HandleRenameGeneric_def Let_def rename_entries_reported
      length_concat_rename_reports string_replace_def)

text \<open>
  The amended statement at \<open>rename("a", "c")\<close> in \<open>/w\<close>: \<open>/w/a\<close> is a directory with the one
  entry \<open>/w/a/f\<close>, and \<open>/w/c/f\<close> does not exist.
\<close>

theorem HandleRenameGeneric_directory_reports_witness:
  "reported (Handlerename example_bxl
      (example_stop (\<lambda>i. 0) (\<lambda>i. if i = 1 then ''a'' else ''c'') 0) example_sandbox) =
   [report_access_path ''rename'' ES_EVENT_TYPE_NOTIFY_UNLINK ''/w/a/f'' 0x81A4 O_NOFOLLOW 0
      True 100,
    report_access_event ''rename''
      \<lparr>ev_pid = 100, ev_cpid = 0, ev_ppid = 0, ev_type = ES_EVENT_TYPE_NOTIFY_CREATE,
       ev_action = ES_ACTION_TYPE_NOTIFY, ev_src = ''/w/c/f'', ev_dst = [],
       ev_exec = ''/usr/bin/tool'', ev_mode = 0, ev_modified = False, ev_error = 0\<rparr> None]"
proof -
  have a: "''/w/a'' =
      normalize_path_at example_bxl AT_FDCWD ''a'' O_NOFOLLOW (m_traceePid example_sandbox)"
    by (simp add: example_defs)
  have b: "''/w/c'' =
      normalize_path_at example_bxl AT_FDCWD ''c'' O_NOFOLLOW (m_traceePid example_sandbox)"
    by (simp add: example_defs)
  have c: "S_ISDIR (get_mode example_bxl ''/w/a'')"
    by (simp add: example_defs S_ISDIR_def S_IFDIR_def S_IFMT_def)
  have d: "EnumerateDirectory example_bxl ''/w/a'' True = (True, [''/w/a/f''])"
    by (simp add: example_defs)
  from HandleRenameGeneric_directory_reports [OF a b c d, of "''rename''" "[]"]
  show ?thesis
    by (simp add: Handlerename_def rename_reports_def example_defs S_IFREG_def)
qed

text \<open>
  The claim as stated fails at \<open>rename("a", "b")\<close> in \<open>/w\<close>, where \<open>/w/b/f\<close> exists: the
  second report of the pair is a \<open>NOTIFY_OPEN\<close>, not a \<open>NOTIFY_CREATE\<close>.
\<close>

theorem HandleRenameGeneric_existing_destination_counterexample:
  "reported (Handlerename example_bxl
      (example_stop (\<lambda>i. 0) (\<lambda>i. if i = 1 then ''a'' else ''b'') 0) example_sandbox) =
   [report_access_path ''rename'' ES_EVENT_TYPE_NOTIFY_UNLINK ''/w/a/f'' 0x81A4 O_NOFOLLOW 0
      True 100,
    report_access_event ''rename''
      \<lparr>ev_pid = 100, ev_cpid = 0, ev_ppid = 0, ev_type = ES_EVENT_TYPE_NOTIFY_OPEN,
       ev_action = ES_ACTION_TYPE_NOTIFY, ev_src = ''/w/b/f'', ev_dst = [],
       ev_exec = ''/usr/bin/tool'', ev_mode = 0x81A4, ev_modified = False, ev_error = 0\<rparr> None]"
  by (simp add: Handlerename_def HandleRenameGeneric_def rename_entry_def ReportOpen_def
      string_replace_def open_event_type_O_CREAT S_ISDIR_def S_IFDIR_def S_IFMT_def S_IFREG_def
      example_defs)

text \<open>
  C5. The claim: an \<open>unlinkat\<close> with a non-empty path is reported as a \<open>NOTIFY_UNLINK\<close>.
  The code does not do so. \<open>unlinkat(AT_FDCWD, "out.txt", 0)\<close>, with the descriptor
  sign-extended in its register (\<open>0xFFFFFFFFFFFFFF9C\<close>), reports nothing, while the same
  removal made with \<open>unlink("out.txt")\<close> is reported. When only the low half of the
  register holds \<open>AT_FDCWD\<close> (\<open>0xFFFFFF9C\<close>), the comparison with the sign-extended
  constant fails and the call is reported.
\<close>

theorem Handleunlinkat_AT_FDCWD_reports_nothing:
  "reported (Handleunlinkat example_bxl
     (example_stop (\<lambda>i. if i = 1 then scast AT_FDCWD else 0) (\<lambda>i. ''out.txt'') 0)
     example_sandbox) = []
   \<and> (scast AT_FDCWD :: long) = 0xFFFFFFFFFFFFFF9C
   \<and> reported (Handleunlink example_bxl
     (example_stop (\<lambda>i. 0) (\<lambda>i. ''out.txt'') 0) example_sandbox) =
     [report_access_path ''unlink'' ES_EVENT_TYPE_NOTIFY_UNLINK ''out.txt'' 0 O_NOFOLLOW 0 True
        100]
   \<and> reported (Handleunlinkat example_bxl
     (example_stop (\<lambda>i. if i = 1 then 0xFFFFFF9C else 0) (\<lambda>i. ''out.txt'') 0)
     example_sandbox) =
     [report_access_at ''unlinkat'' ES_EVENT_TYPE_NOTIFY_UNLINK AT_FDCWD ''out.txt'' O_NOFOLLOW
        False 100 0]"
  by (simp add: Handleunlinkat_def Handleunlink_def AT_FDCWD_def example_defs)

text \<open>
  C6. When \<open>execve\<close> is handled for a pid that is not in the tracee table,
  \<open>UpdateTraceeTableForExec\<close> reports a \<open>NOTIFY_FORK\<close> event for that pid, under the name
  \<open>vfork\<close>, and appends the entry for the pid; the report of the exec comes after the fork
  event, and the exec arguments, when they are reported, come last.
\<close>

theorem Handleexecve_unknown_pid_reports_fork_first:
  assumes "m_traceePid s \<notin> fst ` set (m_traceeTable s)"
  shows "reported (UpdateTraceeTableForExec exePath s) =
           reported s @
           [report_access_event ''vfork''
              (fork_event (m_traceePid s) (m_traceePid s) exePath) (Some False)]
       \<and> m_traceeTable (UpdateTraceeTableForExec exePath s) =
           m_traceeTable s @ [(m_traceePid s, exePath)]
       \<and> ev_type (fork_event (m_traceePid s) (m_traceePid s) exePath) =
           ES_EVENT_TYPE_NOTIFY_FORK
       \<and> ev_cpid (fork_event (m_traceePid s) (m_traceePid s) exePath) = m_traceePid s
       \<and> reported (Handleexecve bxl t s) =
           reported s @
           [report_access_event ''vfork''
              (fork_event (m_traceePid s) (m_traceePid s) (ReadArgumentString t 1))
              (Some False),
            report_exec ''execve'' (basename bxl (ReadArgumentString t 1))
              (ReadArgumentString t 1) 0 0 (m_traceePid s)] @
           (if IsReportingProcessArgs bxl
            then [report_exec_args (m_traceePid s) (ReadArgumentVector t 2)] else [])
       \<and> m_traceeTable (Handleexecve bxl t s) =
           m_traceeTable s @ [(m_traceePid s, ReadArgumentString t 1)]"
proof -
  from assms have none: "FindProcess (m_traceePid s) (m_traceeTable s) = None"
    by (simp add: FindProcess_None_iff)
  have upd: "UpdateTraceeTableForExec p s =
      push_back (m_traceePid s, p)
        (emit (report_access_event ''vfork'' (fork_event (m_traceePid s) (m_traceePid s) p)
                (Some False)) s)" for p
    by (simp add: UpdateTraceeTableForExec_def none)
  have a: "reported (UpdateTraceeTableForExec exePath s) =
           reported s @
           [report_access_event ''vfork''
              (fork_event (m_traceePid s) (m_traceePid s) exePath) (Some False)]"
    by (simp add: upd)
  have b: "m_traceeTable (UpdateTraceeTableForExec exePath s) =
           m_traceeTable s @ [(m_traceePid s, exePath)]"
    by (simp add: upd)
  have c: "ev_type (fork_event (m_traceePid s) (m_traceePid s) exePath) =
           ES_EVENT_TYPE_NOTIFY_FORK
       \<and> ev_cpid (fork_event (m_traceePid s) (m_traceePid s) exePath) = m_traceePid s"
    by (simp add: fork_event_def)
  have d: "reported (Handleexecve bxl t s) =
           reported s @
           [report_access_event ''vfork''
              (fork_event (m_traceePid s) (m_traceePid s) (ReadArgumentString t 1))
              (Some False),
            report_exec ''execve'' (basename bxl (ReadArgumentString t 1))
              (ReadArgumentString t 1) 0 0 (m_traceePid s)] @
           (if IsReportingProcessArgs bxl
            then [report_exec_args (m_traceePid s) (ReadArgumentVector t 2)] else [])"
    by (simp add: Handleexecve_def Let_def upd)
  have e: "m_traceeTable (Handleexecve bxl t s) =
           m_traceeTable s @ [(m_traceePid s, ReadArgumentString t 1)]"
    by (simp add: Handleexecve_def Let_def upd)
  from a b c d e show ?thesis by blast
qed

text \<open>
  The statement at a tracer that knows pid 100 only and handles the \<open>execve\<close> of
  \<open>/bin/ls\<close> by pid 101.
\<close>

theorem Handleexecve_unknown_pid_reports_fork_first_witness:
  "reported (Handleexecve example_bxl
      (example_stop (\<lambda>i. 0) (\<lambda>i. ''/bin/ls'') 0) (example_sandbox\<lparr>m_traceePid := 101\<rparr>)) =
     [report_access_event ''vfork'' (fork_event 101 101 ''/bin/ls'') (Some False),
      report_exec ''execve'' ''ls'' ''/bin/ls'' 0 0 101,
      report_exec_args 101 ''tool -x'']
   \<and> m_traceeTable (Handleexecve example_bxl
      (example_stop (\<lambda>i. 0) (\<lambda>i. ''/bin/ls'') 0) (example_sandbox\<lparr>m_traceePid := 101\<rparr>)) =
     [(100, ''/usr/bin/tool''), (101, ''/bin/ls'')]"
proof -
  have h: "m_traceePid (example_sandbox\<lparr>m_traceePid := 101\<rparr>)
             \<notin> fst ` set (m_traceeTable (example_sandbox\<lparr>m_traceePid := 101\<rparr>))"
    by (simp add: example_sandbox_def)
  from Handleexecve_unknown_pid_reports_fork_first
         [OF h, of _ example_bxl "example_stop (\<lambda>i. 0) (\<lambda>i. ''/bin/ls'') 0"]
  show ?thesis
    by (simp add: example_defs)
qed

text \<open>
  C7. The claim: every mutation of the tracee table keeps at most one entry per pid. The
  code does not do so for the append of a child. When \<open>fork\<close> fails twice with
  \<open>-EAGAIN\<close> (\<open>-11\<close>), \<open>HandleChildProcess\<close> appends the return value as a child pid both
  times, and the table holds two entries for the pid \<open>-11\<close>.
\<close>

theorem HandleChildProcess_appends_duplicate_pid:
  "m_traceeTable
     (Handlefork example_bxl (example_stop (\<lambda>i. 0) (\<lambda>i. []) (- 11))
       (Handlefork example_bxl (example_stop (\<lambda>i. 0) (\<lambda>i. []) (- 11)) example_sandbox)) =
   [(100, ''/usr/bin/tool''), (- 11, ''/usr/bin/tool''), (- 11, ''/usr/bin/tool'')]
   \<and> distinct (map fst (m_traceeTable example_sandbox))
   \<and> \<not> distinct (map fst (m_traceeTable
     (Handlefork example_bxl (example_stop (\<lambda>i. 0) (\<lambda>i. []) (- 11))
       (Handlefork example_bxl (example_stop (\<lambda>i. 0) (\<lambda>i. []) (- 11)) example_sandbox))))"
  by (simp add: Handlefork_def HandleChildProcess_def Let_def example_defs)

text \<open>
  C8. When the semaphore was opened, the clock was read and \<open>sem_timedwait\<close>, called with
  the deadline 15 seconds after the clock's time, returns \<open>-1\<close> (a timeout or any other
  failure), the bootstrap closes and unlinks the semaphore, prints a diagnostic and
  calls \<open>real__exit(-1)\<close>: it ends with a non-zero exit status, and \<open>PR_SET_SECCOMP\<close> is
  not among the calls it made.
\<close>

theorem ExecuteWithPTraceSandbox_wait_failure_exits:
  assumes "sem_open os (''/'' @ to_string os (getpid os)) = Some sem"
    and "clock_gettime os = (rc, ts)" and "rc \<noteq> - 1"
    and "sem_timedwait os sem (ts\<lparr>tv_sec := tv_sec ts + 15\<rparr>) = - 1"
  shows "ExecuteWithPTraceSandbox os file argv envp =
           ([call_sem_open (''/'' @ to_string os (getpid os)),
             call_clock_gettime,
             call_sem_timedwait sem (ts\<lparr>tv_sec := tv_sec ts + 15\<rparr>),
             call_sem_close sem,
             call_sem_unlink (''/'' @ to_string os (getpid os)),
             real_fprintf_stderr
               (''[PTrace] PTraceRunner failed to respond within '' @
                ''15 seconds with error: ''),
             call_real_exit (- 1)],
            Exited (- 1))
       \<and> exit_status (- 1) \<noteq> 0
       \<and> call_prctl_set_seccomp prog \<notin> set (fst (ExecuteWithPTraceSandbox os file argv envp))"
  using assms
  by (simp add: ExecuteWithPTraceSandbox_def Let_def exit_status_def)

text \<open>The statement on \<open>example_os\<close>, where the wait fails at the deadline 1015.\<close>

theorem ExecuteWithPTraceSandbox_wait_failure_exits_witness:
  "ExecuteWithPTraceSandbox example_os ''/bin/ls'' [''ls''] [] =
           ([call_sem_open ''/4242'',
             call_clock_gettime,
             call_sem_timedwait 1 \<lparr>tv_sec = 1015, tv_nsec = 5\<rparr>,
             call_sem_close 1,
             call_sem_unlink ''/4242'',
             real_fprintf_stderr
               (''[PTrace] PTraceRunner failed to respond within '' @
                ''15 seconds with error: ''),
             call_real_exit (- 1)],
            Exited (- 1))
   \<and> call_prctl_set_seccomp filter_prog
        \<notin> set (fst (ExecuteWithPTraceSandbox example_os ''/bin/ls'' [''ls''] []))"
proof -
  have a: "sem_open example_os (''/'' @ to_string example_os (getpid example_os)) = Some 1"
    by (simp add: example_os_def)
  have b: "clock_gettime example_os = (0, \<lparr>tv_sec = 1000, tv_nsec = 5\<rparr>)"
    by (simp add: example_os_def)
  have c: "(0::int) \<noteq> - 1" by simp
  have d: "sem_timedwait example_os 1
      (\<lparr>tv_sec = 1000, tv_nsec = 5\<rparr>\<lparr>tv_sec := tv_sec \<lparr>tv_sec = 1000, tv_nsec = 5\<rparr> + 15\<rparr>)
      = - 1"
    by (simp add: example_os_def)
  from ExecuteWithPTraceSandbox_wait_failure_exits
         [OF a b c d, of "''/bin/ls''" "[''ls'']" "[]" filter_prog]
  show ?thesis
    by (simp add: example_os_def)
qed

text \<open>
  C9, as amended. The handler of \<open>readlinkat\<close> does not resolve its file descriptor: for
  every \<open>readlinkat\<close> it makes exactly one \<open>report_access_at\<close> call of type
  \<open>NOTIFY_READLINK\<close>, with the descriptor as \<open>dirfd\<close>, the path argument and
  \<open>O_NOFOLLOW\<close>, whatever the descriptor resolves to. It is \<open>HandleReportAccessFd\<close>, which
  the handlers keyed by a descriptor alone go through, that reports nothing when the path
  of the descriptor does not begin with \<open>/\<close>.
\<close>

theorem Handlereadlinkat_always_reports:
  "reported (Handlereadlinkat bxl t s) =
     reported s @
     [report_access_at ''readlinkat'' ES_EVENT_TYPE_NOTIFY_READLINK
        (ucast (ReadArgumentLong t 1)) (ReadArgumentString t 2) O_NOFOLLOW False
        (m_traceePid s) 0]
   \<and> (first_char (fd_to_path bxl fd (m_traceePid s)) \<noteq> CHR ''/'' \<longrightarrow>
        reported (HandleReportAccessFd bxl syscall fd event s) = reported s)"
  by (simp add: Handlereadlinkat_def HandleReportAccessFd_def Let_def)

text \<open>
  The amended statement at the pipe descriptor 3: \<open>readlinkat(3, "cc")\<close> is reported, a
  \<open>write\<close> to the descriptor is not.
\<close>

theorem Handlereadlinkat_always_reports_witness:
  "reported (Handlereadlinkat example_bxl
        (example_stop (\<lambda>i. if i = 1 then 3 else 0) (\<lambda>i. ''cc'') 0) example_sandbox) =
       [report_access_at ''readlinkat'' ES_EVENT_TYPE_NOTIFY_READLINK 3 ''cc''
          O_NOFOLLOW False 100 0]
   \<and> reported (HandleReportAccessFd example_bxl ''write'' 3 ES_EVENT_TYPE_NOTIFY_WRITE
        example_sandbox) = []"
proof -
  have h: "first_char (fd_to_path example_bxl 3 (m_traceePid example_sandbox)) \<noteq> CHR ''/''"
    by (simp add: example_defs)
  from Handlereadlinkat_always_reports
         [of example_bxl "example_stop (\<lambda>i. if i = 1 then 3 else 0) (\<lambda>i. ''cc'') 0"
             example_sandbox 3 "''write''" ES_EVENT_TYPE_NOTIFY_WRITE] h
  show ?thesis
    by (simp add: example_defs)
qed

text \<open>
  The claim as stated fails at \<open>readlinkat(3, "/etc/alternatives/cc")\<close>, where descriptor 3
  is a pipe, whose path \<open>pipe:[7]\<close> does not begin with \<open>/\<close>: the handler reports the
  call. \<open>fstat(3)\<close>, which goes through \<open>HandleReportAccessFd\<close>, reports nothing.
\<close>

theorem Handlereadlinkat_pipe_descriptor_counterexample:
  "first_char (fd_to_path example_bxl 3 100) \<noteq> CHR ''/''
   \<and> reported (Handlereadlinkat example_bxl
        (example_stop (\<lambda>i. if i = 1 then 3 else 0) (\<lambda>i. ''/etc/alternatives/cc'') 0)
        example_sandbox) =
       [report_access_at ''readlinkat'' ES_EVENT_TYPE_NOTIFY_READLINK 3 ''/etc/alternatives/cc''
          O_NOFOLLOW False 100 0]
   \<and> reported (Handlefstat example_bxl
        (example_stop (\<lambda>i. if i = 1 then 3 else 0) (\<lambda>i. []) 0) example_sandbox) = []"
  by (simp add: Handlereadlinkat_def Handlefstat_def HandleReportAccessFd_def example_defs)

text \<open>
  C10. When the reader is called with \<open>nullTerminated = false\<close> and \<open>length \<le> 0\<close>, the
  loop over the characters of a word never sets \<open>finishedReadingArgument\<close>; the read
  returns exactly when some word at \<open>addr\<close>, \<open>addr + 8\<close>, \<open>addr + 16\<close>, ... reads \<open>-1\<close>; and
  in a memory where no word reads \<open>-1\<close> the loop does not end.
\<close>

theorem ReadArgumentStringAtAddr_without_length_diverges:
  assumes "\<not> nullTerminated" and "len \<le> 0"
  shows "fst (read_chars nullTerminated len cs cur arg) = False
     \<and> ((\<exists>r. ReadArgumentStringAtAddr peek addr nullTerminated len = Some r) \<longleftrightarrow>
          (\<exists>k. peek (addr + 8 * of_nat k) = - 1))
     \<and> ((\<forall>a. peek a \<noteq> - 1) \<longrightarrow>
          ReadArgumentStringAtAddr peek addr nullTerminated len = None)"
proof -
  have a: "fst (read_chars nullTerminated len cs cur arg) = False"
    using assms by (simp add: read_chars_never_finished)
  have b: "(\<exists>r. ReadArgumentStringAtAddr peek addr nullTerminated len = Some r) \<longleftrightarrow>
          (\<exists>k. peek (addr + 8 * of_nat k) = - 1)"
    unfolding ReadArgumentStringAtAddr_def
    using read_words_Some_fault [OF _ assms] read_words_fault_Some [OF _ assms]
    by blast
  have c: "(\<forall>a. peek a \<noteq> - 1) \<longrightarrow>
      ReadArgumentStringAtAddr peek addr nullTerminated len = None"
    using b by (cases "ReadArgumentStringAtAddr peek addr nullTerminated len") auto
  from a b c show ?thesis by blast
qed

text \<open>
  The statement on a memory whose words are all \<open>0x41\<close>, where the read does not end, and
  on \<open>example_peek\<close>, where it ends at the third word.
\<close>

theorem ReadArgumentStringAtAddr_without_length_diverges_witness:
  "ReadArgumentStringAtAddr (\<lambda>a. 0x41) 0x1000 False 0 = None
   \<and> ReadArgumentStringAtAddr example_peek 0x1000 False 0 \<noteq> None"
proof -
  have h1: "\<not> False" by simp
  have h2: "(0::int) \<le> 0" by simp
  have p: "example_peek (0x1000 + 8 * of_nat 2) = - 1"
    by (simp add: example_peek_def)
  from ReadArgumentStringAtAddr_without_length_diverges
         [OF h1 h2, of "[]" 0 "[]" "\<lambda>a. 0x41" "0x1000"]
  have n: "ReadArgumentStringAtAddr (\<lambda>a. 0x41) 0x1000 False 0 = None"
    by simp
  from ReadArgumentStringAtAddr_without_length_diverges
         [OF h1 h2, of "[]" 0 "[]" example_peek "0x1000"] p
  have "\<exists>r. ReadArgumentStringAtAddr example_peek 0x1000 False 0 = Some r"
    by blast
  with n show ?thesis by auto
qed

end
